theory Spec2Isabelle
  imports Main "HOL-Library.Sublist"
begin

section \<open>Python strings\<close>

text \<open>
  Strings are lists of characters. The model covers ASCII text: \<open>lower\<close> maps the
  letters \<open>A\<close>..\<open>Z\<close> to \<open>a\<close>..\<open>z\<close> and leaves every other character alone
  (Python's \<open>str.lower\<close> restricted to ASCII). \<open>s in t\<close> on strings is the contiguous
  substring test, written \<open>contains s t\<close>.
\<close>

definition lower_char :: "char \<Rightarrow> char" where
  "lower_char c =
     (let n = (of_char c :: nat) in if 65 \<le> n \<and> n \<le> 90 then char_of (n + 32) else c)"

definition lower :: "string \<Rightarrow> string" where
  "lower s = map lower_char s"

text \<open>\<open>contains s t\<close> is Python's \<open>s in t\<close>.\<close>

fun contains :: "string \<Rightarrow> string \<Rightarrow> bool" where
  "contains s [] = (s = [])"
| "contains s (c # cs) = (prefix s (c # cs) \<or> contains s cs)"

text \<open>\<open>any(term in text for term in terms)\<close>.\<close>

definition any_in :: "string list \<Rightarrow> string \<Rightarrow> bool" where
  "any_in terms text = list_ex (\<lambda>t. contains t text) terms"

text \<open>\<open>text.startswith((p1, p2, ...))\<close>.\<close>

definition startswith_any :: "string \<Rightarrow> string list \<Rightarrow> bool" where
  "startswith_any text ps = list_ex (\<lambda>p. prefix p text) ps"

text \<open>
  The characters \<open>str.strip()\<close> removes: those for which \<open>str.isspace\<close> holds, among
  the code points below 256 (tab, line feed, vertical tab, form feed, carriage return,
  the separators 28..31, space, NEL and the no-break space).
\<close>

definition isspace :: "char \<Rightarrow> bool" where
  "isspace c = ((of_char c :: nat) \<in> {9, 10, 11, 12, 13, 28, 29, 30, 31, 32, 133, 160})"

definition strip :: "string \<Rightarrow> string" where
  "strip s = rev (dropWhile isspace (rev (dropWhile isspace s)))"

text \<open>\<open>s.split(sep)[0]\<close> for a non-empty separator: the part of \<open>s\<close> before the first
  occurrence of \<open>sep\<close>, all of \<open>s\<close> when there is none.\<close>

fun split_first :: "string \<Rightarrow> string \<Rightarrow> string" where
  "split_first sep [] = []"
| "split_first sep (c # cs) = (if prefix sep (c # cs) then [] else c # split_first sep cs)"

section \<open>scraper\_filters.py\<close>

text \<open>\<open>sanitize_url\<close> returns \<open>None\<close> for a rejected URL.\<close>

definition sanitize_url :: "string \<Rightarrow> string option" where
  "sanitize_url url =
     (if url = [] then None
      else let u = strip url in
        if startswith_any (lower u) [''mailto:'', ''tel:'', ''javascript:'', ''data:'', ''#'']
        then None
        else if \<not> startswith_any (lower u) [''http://'', ''https://''] then None
        else Some u)"

definition allowed_terms :: "string list" where
  "allowed_terms = [''intern'', ''internship'', ''co-op'', ''trainee'', ''graduate'',
                    ''student'', ''apprentice'', ''fellowship'']"

definition forbidden_terms :: "string list" where
  "forbidden_terms = [''senior'', ''staff'', ''lead'', ''principal'', ''architect'',
                      ''manager'', ''director'', ''vp'', ''head of'', ''executive'',
                      ''sr.'', ''sr '', ''chief'', ''partner'']"

text \<open>\<open>matches_target_role(title, mode)\<close>; every caller passes the mode
  \<open>"internship"\<close>, which is also the default.\<close>

definition matches_target_role :: "string \<Rightarrow> string \<Rightarrow> bool" where
  "matches_target_role title mode =
     (if title = [] then False
      else let title_lower = lower title in
        if mode = ''internship'' then
          (if \<not> any_in allowed_terms title_lower then False
           else if any_in forbidden_terms title_lower then False
           else True)
        else True)"

section \<open>URL guard of the scraper\<close>

text \<open>\<open>_get_job_detail_url\<close>: an apply URL is cut back to its job detail URL.\<close>

definition get_job_detail_url :: "string \<Rightarrow> string" where
  "get_job_detail_url url =
     (if contains ''/apply'' url then split_first ''/apply'' url
      else if contains ''/application'' url then split_first ''/application'' url
      else url)"

text \<open>\<open>_is_apply_url\<close>.\<close>

definition is_apply_url :: "string \<Rightarrow> bool" where
  "is_apply_url url = (contains ''/apply'' url \<or> contains ''/application'' url)"

definition skipped_terms :: "string list" where
  "skipped_terms = [''login'', ''sign-in'', ''my-profile'', ''benefits'',
                    ''skip-to-main'', ''candidateexperience'',
                    ''auth'', ''sso'', ''oraclecloud.com'',
                    ''privacy'', ''terms'', ''cookie'']"

text \<open>\<open>should_skip_url\<close>: sanitize first, then the blocklist on the lowercased URL.\<close>

definition should_skip_url :: "string \<Rightarrow> bool" where
  "should_skip_url url =
     (case sanitize_url url of
        None \<Rightarrow> True
      | Some u \<Rightarrow> any_in skipped_terms (lower u))"

text \<open>\<open>_is_spa_url\<close>.\<close>

definition is_spa_url :: "string \<Rightarrow> bool" where
  "is_spa_url url =
     any_in [''myworkdayjobs.com'', ''taleo.net'', ''icims.com'', ''greenhouse.io'',
             ''lever.co'', ''startup.jobs'', ''#/job'', ''#search''] (lower url)"

section \<open>Python values and exceptions\<close>

text \<open>JSON values, as \<open>json.loads\<close> returns them: \<open>None\<close>, a Boolean, a number, a
  string, a list or a dictionary. Of a number only being zero or not is used.\<close>

datatype json = JNull | JBool bool | JNum int | JStr string | JArr "json list"
  | JObj "(string \<times> json) list"

text \<open>The truth value Python gives a value in \<open>if v\<close>, \<open>not v\<close> and \<open>v and w\<close>.\<close>

fun truthy :: "json \<Rightarrow> bool" where
  "truthy JNull = False"
| "truthy (JBool b) = b"
| "truthy (JNum n) = (n \<noteq> 0)"
| "truthy (JStr s) = (s \<noteq> [])"
| "truthy (JArr xs) = (xs \<noteq> [])"
| "truthy (JObj kvs) = (kvs \<noteq> [])"

text \<open>The exceptions of the model: a failure of the crawler, and the three kinds the
  scraper's own code raises on a malformed URL or on a value that is not a string.\<close>

datatype exn = CrawlerError | ValueError | TypeError | AttributeError

section \<open>Job records\<close>

text \<open>
  A job record is the dictionary the scraper builds. \<open>job_id\<close> is \<open>None\<close> when the
  dictionary has no such key (\<open>job.get('job_id')\<close>); the other keys are always present
  in a record the scraper builds. The title, the company and the employment type
  (\<open>experience\<close>) of a record built from embedded metadata are whatever JSON value the
  metadata holds, so these fields are JSON values; the other fields are strings in
  every record that is built.
\<close>

record job =
  job_id :: "string option"
  job_title :: json
  company :: json
  location :: string
  experience :: json
  job_description :: string
  responsibilities :: string
  skills :: "string list"
  source_url :: string

text \<open>\<open>is_valid_job\<close> of scraper\_filters.py. A scraper record has no \<open>title\<close> or
  \<open>description\<close> key, so \<open>job_dict.get('job_title', '') or job_dict.get('title', '')\<close>
  is its \<open>job_title\<close> when that is true and the empty string otherwise, and likewise
  for the description. \<open>title + " " + company\<close> raises \<open>TypeError\<close> unless both are
  strings.\<close>

definition junk_terms :: "string list" where
  "junk_terms = [''youradchoices'', ''privacy policy'', ''cookie policy'', ''terms of use'',
                 ''do not sell my info'', ''opt out'', ''digital advertising alliance'',
                 ''interest-based ads'', ''browser cookies'', ''javascript error'']"

definition is_valid_job :: "job \<Rightarrow> exn + bool" where
  "is_valid_job j =
     (let title = (if truthy (job_title j) then job_title j else JStr []);
          comp = company j; desc = job_description j in
      if \<not> truthy title \<or> \<not> truthy comp then Inr False
      else
        case (title, comp) of
          (JStr t, JStr c) \<Rightarrow>
            if any_in junk_terms (lower (t @ '' '' @ c)) then Inr False
            else if length desc < 50 then Inr False
            else if contains ''privacy policy'' (lower desc) \<and> length desc < 500
                    \<and> \<not> contains ''responsibilities'' (lower desc) then Inr False
            else Inr True
        | _ \<Rightarrow> Inl TypeError)"

text \<open>\<open>_is_invalid_title\<close>.\<close>

definition invalid_titles :: "string list" where
  "invalid_titles = [''apply'', ''provide'', ''upload resume'', ''join us'', ''login'',
                     ''create account'', ''careers'', ''jobs'', ''work with us'', ''search'',
                     ''results'', ''filter'', ''please wait'', ''loading'', ''application'',
                     ''job title not available'', ''profile'', ''member'', ''blog'', ''news'',
                     ''events'']"

definition is_invalid_title :: "string \<Rightarrow> bool" where
  "is_invalid_title title =
     (if title = [] \<or> length title < 3 then True
      else any_in invalid_titles (lower title))"

text \<open>\<open>_score_job\<close>: the confidence score. \<open>job_data.get('job_title', '').lower()\<close>
  raises \<open>AttributeError\<close> for a title that is not a string.\<close>

definition role_keywords :: "string list" where
  "role_keywords = [''engineer'', ''developer'', ''manager'', ''analyst'', ''consultant'',
                    ''specialist'', ''director'', ''intern'']"

definition score_job :: "job \<Rightarrow> exn + int" where
  "score_job j =
     (case job_title j of
        JStr t \<Rightarrow>
          (let title = lower t;
               desc = lower (job_description j);
               s1 = (if length title > 3 \<and> \<not> is_invalid_title title then 2 else 0);
               s2 = (if length desc > 200 then 2 else 0);
               s3 = (if skills j \<noteq> [] then 1 else 0);
               loc = location j;
               s4 = (if loc \<noteq> [] \<and> lower loc \<noteq> ''location not specified'' then 1 else 0);
               s5 = (if any_in role_keywords title then 1 else 0);
               s6 = (if any_in [''employee benefits'', ''our culture'',
                                ''frequently asked questions''] desc then 3 else 0);
               s7 = (if contains ''application form'' desc \<or> contains ''upload resume'' desc
                     then 5 else 0)
           in Inr (s1 + s2 + s3 + s4 + s5 - s6 - s7))
      | _ \<Rightarrow> Inl AttributeError)"

text \<open>\<open>_validate_country\<close>.\<close>

definition validate_country :: "job \<Rightarrow> string \<Rightarrow> bool" where
  "validate_country j country =
     (let loc = lower (location j); country_lower = lower country in
      contains country_lower loc \<or> contains ''remote'' loc
      \<or> contains ''not specified'' loc \<or> contains ''worldwide'' loc)"

text \<open>
  The class body defines \<open>_validate_job\<close> twice. \<open>validate_job_scored\<close> is the first
  definition (lines 856-868), the one that calls \<open>_score_job\<close>; \<open>validate_job\<close> is
  the second (lines 1195-1206), which in Python replaces the first and is the one every
  call \<open>self._validate_job(...)\<close> reaches. Both are applied to a record that exists
  (the callers test \<open>job_data and ...\<close> first). In \<open>validate_job\<close> the title goes to
  \<open>matches_target_role\<close>, which returns \<open>False\<close> for a title that is not true and
  raises \<open>AttributeError\<close> on \<open>title.lower()\<close> for another title that is not a string.
\<close>

definition validate_job_scored :: "job \<Rightarrow> string \<Rightarrow> exn + bool" where
  "validate_job_scored j country =
     (case score_job j of
        Inl e \<Rightarrow> Inl e
      | Inr score \<Rightarrow>
          if score < 3 then Inr False
          else if country \<noteq> [] \<and> \<not> validate_country j country then Inr False
          else Inr True)"

definition validate_job :: "job \<Rightarrow> string \<Rightarrow> exn + bool" where
  "validate_job j country =
     (case is_valid_job j of
        Inl e \<Rightarrow> Inl e
      | Inr ok \<Rightarrow>
          if \<not> ok then Inr False
          else
            case job_title j of
              JStr t \<Rightarrow>
                if \<not> matches_target_role t ''internship'' then Inr False
                else Inr (validate_country j country)
            | v \<Rightarrow> if \<not> truthy v then Inr False else Inl AttributeError)"

text \<open>
  \<open>_deduplicate_jobs\<close>. The dictionary \<open>unique_jobs\<close> is an association list in
  insertion order (a key is only ever added, never overwritten), so its values in order
  are \<open>list(unique_jobs.values())\<close>. The composite key is an f-string: a string is put
  in as it is, another value as Python's \<open>str\<close> prints it, which is the parameter
  \<open>str_of\<close>.
\<close>

definition format_value :: "(json \<Rightarrow> string) \<Rightarrow> json \<Rightarrow> string" where
  "format_value str_of v = (case v of JStr s \<Rightarrow> s | _ \<Rightarrow> str_of v)"

definition composite_key :: "(json \<Rightarrow> string) \<Rightarrow> job \<Rightarrow> string" where
  "composite_key str_of j =
     format_value str_of (job_title j) @ ''_'' @ location j @ ''_''
       @ format_value str_of (company j)"

definition dedup_key :: "(json \<Rightarrow> string) \<Rightarrow> (string \<times> job) list \<Rightarrow> job \<Rightarrow> string" where
  "dedup_key str_of unique_jobs j =
     (case job_id j of
        None \<Rightarrow> composite_key str_of j
      | Some k \<Rightarrow>
          if k = [] \<or> k \<in> fst ` set unique_jobs then composite_key str_of j else k)"

definition dedup_step :: "(json \<Rightarrow> string) \<Rightarrow> (string \<times> job) list \<Rightarrow> job \<Rightarrow> (string \<times> job) list" where
  "dedup_step str_of unique_jobs j =
     (let key = dedup_key str_of unique_jobs j in
      if key \<notin> fst ` set unique_jobs then unique_jobs @ [(key, j)] else unique_jobs)"

definition deduplicate_jobs :: "(json \<Rightarrow> string) \<Rightarrow> job list \<Rightarrow> job list" where
  "deduplicate_jobs str_of jobs = map snd (foldl (dedup_step str_of) [] jobs)"




section \<open>Pages as the scraper observes them\<close>

text \<open>
  The HTML parser (BeautifulSoup) is a library outside the repository. A parsed page
  is the record of what the scraper's queries on it return; an element of a page is the
  record of what the scraper reads from that element.
\<close>

text \<open>An element returned by \<open>soup.select\<close>: \<open>el_text\<close> is \<open>elem.get_text()\<close>;
  \<open>el_a\<close> is \<open>None\<close> when \<open>elem.find('a')\<close> finds nothing and otherwise the
  \<open>href\<close> of the anchor found (empty when the anchor has none); \<open>el_heading\<close> is the
  text of \<open>elem.find(['h2', 'h3', 'h4', 'a'])\<close>, if any.\<close>

record elem =
  el_text :: string
  el_a :: "string option"
  el_heading :: "string option"

text \<open>An anchor of \<open>soup.find_all('a', href=True)\<close>: its text, its \<open>href\<close> and
  \<open>str(link.parent.get('class', []))\<close>.\<close>

record anchor =
  a_text :: string
  a_href :: string
  a_parent_class :: string

text \<open>
  The job container (\<open>self._find_job_container(soup) or soup\<close>):
  \<open>select_one_text sel\<close> is the text of \<open>container.select_one(sel)\<close>, \<open>None\<close> when
  nothing matches. The other fields are the results of the DOM heuristics
  \<open>_extract_location\<close>, \<open>_extract_description\<close>, \<open>_extract_responsibilities\<close>,
  \<open>_extract_company\<close> (which also reads the job URL) and \<open>_extract_employment_type\<close>
  (which also reads the description) on the container.
\<close>

record container =
  select_one_text :: "string \<Rightarrow> string option"
  extract_location :: string
  extract_description :: string
  extract_responsibilities :: string
  extract_company :: "string \<Rightarrow> string"
  extract_employment_type :: "string \<Rightarrow> string"

text \<open>
  A parsed page: \<open>get_text\<close> is \<open>soup.get_text()\<close>, \<open>get_text_strip\<close> is
  \<open>soup.get_text(strip=True)\<close>, \<open>select sel\<close> is \<open>soup.select(sel)\<close>, \<open>anchors\<close> is
  \<open>soup.find_all('a', href=True)\<close>, \<open>inputs\<close> lists \<open>str(i.attrs)\<close> for the
  \<open>input\<close> and \<open>select\<close> elements, \<open>jobs_ul\<close> says that \<open>soup.find('ul', id='jobs')\<close>
  finds an element, \<open>detail_indicators\<close> that one of the four job-detail lookups of
  \<open>_is_single_job_page\<close> does, \<open>job_content\<close> counts the text nodes that match its
  regular expression, \<open>forms\<close> counts the \<open>form\<close> elements, \<open>json_ld\<close> is the
  JobPosting dictionary that \<open>_extract_json_ld\<close> returns (\<open>None\<close> when it returns
  none), and \<open>job_container\<close> is the job container.
\<close>

record soup =
  get_text :: string
  get_text_strip :: string
  select :: "string \<Rightarrow> elem list"
  anchors :: "anchor list"
  inputs :: "string list"
  jobs_ul :: bool
  detail_indicators :: bool
  job_content :: nat
  forms :: nat
  json_ld :: "(string \<times> json) list option"
  job_container :: container

section \<open>The session and the web\<close>

text \<open>
  The events of a crawl, in the order they happen: a call of \<open>_recursive_crawl\<close> with
  its URL and depth, a call of the light-tier fetcher \<open>crawler.arun\<close> with its call
  site, and a launch of the browser by \<open>_extract_with_selenium\<close>.
\<close>

datatype caller = Entry | Crawl | Detail

datatype event = Visit string nat | Light caller string | Heavy string

text \<open>
  The scraper object's mutable fields. \<open>used_selenium_for_url\<close> is the set of keys of
  the dictionary (every value stored is \<open>True\<close>). \<open>trace\<close> is not a field of the
  source: it records the events so that properties of a crawl can be stated.
\<close>

record scraper =
  seen_urls :: "string set"
  visited_gateways :: "string set"
  visited_urls :: "string set"
  visited_job_urls :: "string set"
  used_selenium_for_url :: "string set"
  trace :: "event list"

text \<open>The result of \<open>crawler.arun\<close>: it raises, it returns a result that is not a
  success, or it returns the page's HTML.\<close>

datatype fetch = Raises | Failed | Html string

text \<open>
  What lies outside the repository. \<open>start\<close> says whether entering
  \<open>AsyncWebCrawler\<close> succeeds (otherwise it raises). \<open>arun\<close> and \<open>browser\<close> are the
  two fetchers; their answer may depend on everything that happened before (the trace)
  and on the URL. \<open>browser\<close> is the body of the \<open>try\<close> block of
  \<open>_extract_with_selenium\<close>: \<open>None\<close> when the driver raises, else the page source.
  \<open>parse\<close> is the HTML parser. \<open>urljoin\<close>, \<open>urlencode\<close> and \<open>url_query\<close> (the
  query part that \<open>urlparse\<close> finds in a URL) are \<open>urllib.parse\<close>; \<open>urljoin\<close> and
  \<open>urlparse\<close> raise \<open>ValueError\<close> on a malformed URL, which is the result \<open>None\<close>.
  \<open>extract_skills\<close> is the regular expression search of \<open>_extract_skills\<close> on a
  string, and \<open>str_of\<close> is Python's \<open>str\<close> on a value that is not a string.
\<close>

record web =
  start :: bool
  arun :: "event list \<Rightarrow> string \<Rightarrow> fetch"
  browser :: "event list \<Rightarrow> string \<Rightarrow> string option"
  parse :: "string \<Rightarrow> soup"
  urljoin :: "string \<Rightarrow> string \<Rightarrow> string option"
  urlencode :: "(string \<times> string) list \<Rightarrow> string"
  url_query :: "string \<Rightarrow> string option"
  extract_skills :: "string \<Rightarrow> string list"
  str_of :: "json \<Rightarrow> string"

definition log :: "event \<Rightarrow> scraper \<Rightarrow> scraper" where
  "log e st = st\<lparr>trace := trace st @ [e]\<rparr>"

text \<open>\<open>len(text.split())\<close>: the number of maximal runs of non-space characters.\<close>

function word_count :: "string \<Rightarrow> nat" where
  "word_count [] = 0"
| "word_count (c # cs) =
     (if isspace c then word_count cs
      else Suc (word_count (dropWhile (\<lambda>x. \<not> isspace x) cs)))"
  by pat_completeness auto
termination
  by (relation "measure length") (auto simp: length_dropWhile_le less_Suc_eq_le)

text \<open>\<open>_extract_with_selenium\<close>: the heavy tier, at most once per URL. The result is
  the page source, empty when the URL is blocked, was tried before, or the driver
  raised.\<close>

definition extract_with_selenium :: "web \<Rightarrow> string \<Rightarrow> scraper \<Rightarrow> string \<times> scraper" where
  "extract_with_selenium W url st =
     (if should_skip_url url then ([], st)
      else if url \<in> used_selenium_for_url st then ([], st)
      else
        let st1 = log (Heavy url)
                    (st\<lparr>used_selenium_for_url := insert url (used_selenium_for_url st)\<rparr>)
        in case browser W (trace st1) url of
             None \<Rightarrow> ([], st1)
           | Some html \<Rightarrow> (html, st1))"

section \<open>Job cards, links and the page classifier\<close>

definition card_selectors :: "string list" where
  \<open>card_selectors =
     [''ul[id="jobs"] li'', ''li[class*="jobs-list-item"]'',
      ''[data-testid*="job"]'', ''[class*="job-card"]'', ''[class*="job-item"]'',
      ''[class*="position"]'', ''article'', ''li[class*="job"]'',
      ''div[class*="card"]'', ''div[class*="item"]'', ''div[class*="listing"]'',
      ''tr[class*="job"]'', ''.job-list-item'',
      ''li'', ''.search-result'', ''.list-row'', ''.row'']\<close>

text \<open>\<open>_is_definitely_job_card\<close>.\<close>

definition is_definitely_job_card :: "elem \<Rightarrow> bool" where
  "is_definitely_job_card e =
     (let text = lower (el_text e) in
      if length text > 500 then False
      else any_in [''workplace type'', ''location:'', ''posted'', ''apply'', ''job id'',
                   ''employment type''] text)"

text \<open>\<open>_is_valid_job_card\<close>.\<close>

definition is_valid_job_card :: "elem \<Rightarrow> bool" where
  "is_valid_job_card e =
     (let text = lower (el_text e) in
      if length text < 20 then False
      else if el_a e = None then False
      else if any_in [''min read'', ''read more'', ''posted by'', ''blog'', ''article''] text
      then False
      else \<not> any_in [''navigation'', ''footer'', ''header'', ''menu''] text)"

text \<open>\<open>_find_job_cards\<close>: one step of the double loop, for the selector \<open>sel\<close> and
  one element it selects; the state of the loop is the list \<open>cards\<close> and the set
  \<open>seen_texts\<close>.\<close>

definition card_loop :: "elem list \<times> string set \<Rightarrow> string \<times> elem \<Rightarrow> elem list \<times> string set" where
  "card_loop acc se =
     (case acc of (cards, seen_texts) \<Rightarrow>
      case se of (sel, e) \<Rightarrow>
        let is_generic = (sel \<in> set [''li'', ''.row'', ''.list-row'']) in
        if is_generic \<and> \<not> is_definitely_job_card e then (cards, seen_texts)
        else
          let text = strip (el_text e) in
          if text \<noteq> [] \<and> text \<notin> seen_texts \<and> is_valid_job_card e
          then (cards @ [e], insert text seen_texts)
          else (cards, seen_texts))"

definition find_job_cards :: "soup \<Rightarrow> elem list" where
  "find_job_cards sp =
     take 20 (fst (foldl card_loop ([], {})
        (concat (map (\<lambda>sel. map (Pair sel) (select sp sel)) card_selectors))))"

text \<open>\<open>_extract_job_url_from_card\<close>; \<open>urljoin\<close> may raise.\<close>

definition extract_job_url_from_card :: "web \<Rightarrow> elem \<Rightarrow> string \<Rightarrow> exn + string option" where
  "extract_job_url_from_card W crd base_url =
     (case el_a crd of
        None \<Rightarrow> Inr None
      | Some href \<Rightarrow>
          if href = [] then Inr None
          else
            case urljoin W base_url href of
              None \<Rightarrow> Inl ValueError
            | Some url \<Rightarrow> Inr (Some (get_job_detail_url url)))"

text \<open>\<open>_find_job_links\<close>: the loop over the anchors, with the list \<open>links\<close> and the
  set \<open>seen\<close>; it ends with the exception when \<open>urljoin\<close> raises.\<close>

fun link_loop :: "web \<Rightarrow> string \<Rightarrow> string list \<Rightarrow> string set \<Rightarrow> anchor list \<Rightarrow> exn + string list" where
  "link_loop W base_url links seen [] = Inr links"
| "link_loop W base_url links seen (a # rest) =
     (let href = a_href a in
      case urljoin W base_url href of
        None \<Rightarrow> Inl ValueError
      | Some url \<Rightarrow>
          if url \<in> seen then link_loop W base_url links seen rest
          else if contains ''/job/'' href \<or> contains ''/career/'' href
                  \<or> contains ''/position/'' href \<or> contains ''/vacancy/'' href
          then link_loop W base_url (links @ [get_job_detail_url url]) (insert url seen) rest
          else if any_in [''engineer'', ''manager'', ''developer''] (lower (a_text a))
                  \<and> length (a_text a) < 50
          then link_loop W base_url (links @ [get_job_detail_url url]) (insert url seen) rest
          else link_loop W base_url links seen rest)"

definition find_job_links :: "web \<Rightarrow> soup \<Rightarrow> string \<Rightarrow> exn + string list" where
  "find_job_links W sp base_url = link_loop W base_url [] {} (anchors sp)"

definition hub_keywords :: "string list" where
  "hub_keywords =
     [''explore all opportunities'', ''explore all'',
      ''careers'', ''career'', ''career hub'', ''career site'', ''career portal'',
      ''career opportunities'', ''job opportunities'', ''work with us'',
      ''join us'', ''life at'', ''why join'', ''your career'', ''our people'',
      ''professionals'', ''experienced professionals'', ''experienced'',
      ''students'', ''student opportunities'',
      ''graduates'', ''graduate programs'', ''graduate roles'',
      ''early careers'', ''early talent'', ''entry level'', ''junior roles'',
      ''internships'', ''interns'', ''internship program'',
      ''apprenticeships'', ''apprentice'', ''trainees'',
      ''campus'', ''campus hiring'', ''university'', ''college hiring'',
      ''new grads'', ''freshers'',
      ''career paths'', ''career tracks'', ''career areas'',
      ''career options'', ''career categories'', ''job families'',
      ''job categories'', ''role categories'',
      ''engineering'', ''technology'', ''software'', ''it'',
      ''data'', ''analytics'', ''ai'', ''machine learning'',
      ''product'', ''design'', ''ux'', ''ui'',
      ''sales'', ''marketing'', ''growth'',
      ''customer service'', ''customer support'',
      ''operations'', ''business operations'',
      ''finance'', ''accounting'', ''audit'',
      ''hr'', ''human resources'', ''people'',
      ''legal'', ''compliance'',
      ''administrative'', ''admin'',
      ''supply chain'', ''logistics'',
      ''manufacturing'', ''production'',
      ''security'', ''cybersecurity'',
      ''corporate'', ''retail'', ''store jobs'',
      ''warehouse'', ''fulfillment'', ''distribution'',
      ''drivers'', ''delivery'',
      ''field jobs'', ''field service'',
      ''healthcare'', ''medical'', ''clinical'',
      ''aviation'', ''airlines'',
      ''banking'', ''financial services'',
      ''insurance'',
      ''energy'', ''utilities'',
      ''construction'', ''infrastructure'',
      ''explore careers'', ''explore jobs'',
      ''find your path'', ''find your career'',
      ''search jobs'', ''job search'',
      ''view all jobs'', ''browse jobs'',
      ''see roles'', ''see opportunities'',
      ''discover roles'', ''open roles'']"

text \<open>\<open>_find_category_links\<close>. \<open>category_step\<close> is the body of the loop for one
  anchor once its URL is joined; the loop ends with the exception when \<open>urljoin\<close>
  raises, which it may for every anchor, since the URL is joined first. A category is
  kept as its URL; its name is only printed.\<close>

definition category_step :: "string \<Rightarrow> string list \<Rightarrow> anchor \<Rightarrow> string list" where
  "category_step full_url categories link =
     (let text = lower (strip (a_text link));
          href = a_href link in
      if href = [] \<or> href = ''#'' \<or> prefix ''javascript'' href then categories
      else if any_in [''login'', ''signin'', ''privacy'', ''terms''] (lower href) then categories
      else
        let is_ats = any_in [''myworkdayjobs.com'', ''taleo.net'', ''icims.com'',
                             ''greenhouse.io'', ''lever.co'', ''oraclecloud.com''] (lower href);
            matched1 = (is_ats \<or> (any_in hub_keywords text \<and> length text < 50));
            parent_classes = lower (a_parent_class link);
            matched = (matched1 \<or>
                       ((contains ''card'' parent_classes \<or> contains ''tile'' parent_classes
                         \<or> contains ''category'' parent_classes)
                        \<and> length text > 3 \<and> length text < 50))
        in if matched \<and> full_url \<notin> set categories then categories @ [full_url]
           else categories)"

fun category_loop :: "web \<Rightarrow> string \<Rightarrow> string list \<Rightarrow> anchor list \<Rightarrow> exn + string list" where
  "category_loop W base_url categories [] = Inr categories"
| "category_loop W base_url categories (link # rest) =
     (case urljoin W base_url (a_href link) of
        None \<Rightarrow> Inl ValueError
      | Some full_url \<Rightarrow>
          category_loop W base_url (category_step full_url categories link) rest)"

definition find_category_links :: "web \<Rightarrow> soup \<Rightarrow> string \<Rightarrow> exn + string list" where
  "find_category_links W sp base_url =
     (case category_loop W base_url [] (anchors sp) of
        Inl e \<Rightarrow> Inl e
      | Inr categories \<Rightarrow> Inr (take 8 categories))"

text \<open>\<open>_is_single_job_page\<close>.\<close>

definition is_single_job_page :: "soup \<Rightarrow> bool" where
  \<open>is_single_job_page sp =
     (if jobs_ul sp \<and> length (select sp ''ul[id="jobs"] li'') > 0 then False
      else if detail_indicators sp then True
      else job_content sp > 2 \<and> length (find_job_cards sp) = 0)\<close>

datatype page_type = JOB_DETAIL | JOB_LISTING | CAREER_GATEWAY | JOB_SEARCH_APP
  | CAREER_INFO | OTHER

definition info_keywords :: "string list" where
  "info_keywords = [''employee benefits'', ''our culture'', ''frequently asked questions'',
                    ''diversity and inclusion'', ''life at'', ''why work here'']"

text \<open>\<open>_classify_page_type\<close>. The category links of rule 5 are looked up with the
  empty base URL, as in the source; that lookup may raise.\<close>

definition classify_page_type :: "web \<Rightarrow> soup \<Rightarrow> string \<Rightarrow> exn + page_type" where
  "classify_page_type W sp url =
     (let text = lower (get_text sp) in
      if any_in info_keywords text \<and> length (find_job_cards sp) = 0 then Inr CAREER_INFO
      else if (contains ''#/job'' url \<or> contains ''#search'' url \<or> contains ''myworkday'' url
               \<or> contains ''taleo'' url) \<and> length (find_job_cards sp) = 0
      then Inr JOB_SEARCH_APP
      else if is_single_job_page sp then Inr JOB_DETAIL
      else if length (find_job_cards sp) > 0 then Inr JOB_LISTING
      else
        case find_category_links W sp [] of
          Inl e \<Rightarrow> Inl e
        | Inr categories \<Rightarrow>
            if length categories > 0 then Inr CAREER_GATEWAY else Inr OTHER)"

section \<open>The job extractor\<close>

text \<open>\<open>", ".join(parts)\<close> for strings.\<close>

fun join_comma :: "string list \<Rightarrow> string" where
  "join_comma [] = []"
| "join_comma [p] = p"
| "join_comma (p # q # ps) = p @ '', '' @ join_comma (q # ps)"

text \<open>
  The location of \<open>_create_job_from_json_ld\<close>. \<open>address_part\<close> is what one of the
  three address values adds to the list \<open>parts\<close>: a non-empty string, or the \<open>name\<close>
  of a dictionary when that is true, whatever value it is. \<open>join_parts\<close> is
  \<open>", ".join(parts)\<close>, which raises \<open>TypeError\<close> when a part is not a string.
\<close>

fun address_part :: "json option \<Rightarrow> json list" where
  "address_part (Some (JStr s)) = (if s \<noteq> [] then [JStr s] else [])"
| "address_part (Some (JObj d)) =
     (case map_of d ''name'' of
        Some v \<Rightarrow> if truthy v then [v] else []
      | None \<Rightarrow> [])"
| "address_part _ = []"

fun strings_of :: "json list \<Rightarrow> string list option" where
  "strings_of [] = Some []"
| "strings_of (JStr s # vs) = map_option ((#) s) (strings_of vs)"
| "strings_of (_ # vs) = None"

definition join_parts :: "json list \<Rightarrow> exn + string" where
  "join_parts parts =
     (case strings_of parts of
        None \<Rightarrow> Inl TypeError
      | Some ss \<Rightarrow> Inr (join_comma ss))"

definition address_location :: "(string \<times> json) list \<Rightarrow> exn + string" where
  "address_location address =
     join_parts (address_part (map_of address ''addressLocality'')
               @ address_part (map_of address ''addressRegion'')
               @ address_part (map_of address ''addressCountry''))"

definition ld_address :: "(string \<times> json) list \<Rightarrow> exn + string" where
  "ld_address job_location =
     (case map_of job_location ''address'' of
        None \<Rightarrow> address_location []
      | Some (JObj address) \<Rightarrow> address_location address
      | Some (JStr s) \<Rightarrow> Inr s
      | Some _ \<Rightarrow> Inr ''Location not specified'')"

definition ld_location :: "(string \<times> json) list \<Rightarrow> exn + string" where
  "ld_location json_data =
     (case map_of json_data ''jobLocation'' of
        None \<Rightarrow> ld_address []
      | Some (JObj job_location) \<Rightarrow> ld_address job_location
      | Some (JStr s) \<Rightarrow> Inr s
      | Some _ \<Rightarrow> Inr ''Location not specified'')"

text \<open>The company: the \<open>name\<close> of the hiring organisation when that is a dictionary
  with such a key, whatever value it holds, and the placeholder otherwise.\<close>

definition ld_company :: "(string \<times> json) list \<Rightarrow> json" where
  "ld_company json_data =
     (case map_of json_data ''hiringOrganization'' of
        None \<Rightarrow> JStr ''Company not specified''
      | Some (JObj hiring_org) \<Rightarrow>
          (case map_of hiring_org ''name'' of
             None \<Rightarrow> JStr ''Company not specified''
           | Some v \<Rightarrow> v)
      | Some _ \<Rightarrow> JStr ''Company not specified'')"

text \<open>
  \<open>_create_job_from_json_ld\<close>. The title, the company and the employment type are
  taken as the metadata holds them. The location is computed first and may raise;
  \<open>_extract_skills(description)\<close> raises \<open>TypeError\<close> for a description that is not
  a string, and then no record is built.
\<close>

definition create_job_from_json_ld :: "web \<Rightarrow> (string \<times> json) list \<Rightarrow> string \<Rightarrow> exn + job" where
  "create_job_from_json_ld W json_data job_url =
     (let title = (case map_of json_data ''title'' of None \<Rightarrow> JStr [] | Some v \<Rightarrow> v);
          description = (case map_of json_data ''description'' of
                           None \<Rightarrow> JStr ''Job description not available''
                         | Some v \<Rightarrow> v);
          employment_type = (case map_of json_data ''employmentType'' of
                               None \<Rightarrow> JStr ''Full-time''
                             | Some v \<Rightarrow> v)
      in case ld_location json_data of
           Inl e \<Rightarrow> Inl e
         | Inr loc \<Rightarrow>
             (case description of
                JStr d \<Rightarrow>
                  Inr \<lparr>job_id = None,
                       job_title = title,
                       company = ld_company json_data,
                       location = loc,
                       experience = employment_type,
                       job_description = d,
                       responsibilities = [],
                       skills = extract_skills W d,
                       source_url = job_url\<rparr>
              | _ \<Rightarrow> Inl TypeError))"

text \<open>\<open>_extract_job_title\<close>: the first selector whose element has a valid title.\<close>

fun first_title :: "container \<Rightarrow> string list \<Rightarrow> string option" where
  "first_title c [] = None"
| "first_title c (selector # rest) =
     (case select_one_text c selector of
        None \<Rightarrow> first_title c rest
      | Some t \<Rightarrow>
          let title = strip t in
          if title \<noteq> [] \<and> \<not> is_invalid_title title then Some title
          else first_title c rest)"

definition workday_selectors :: "string list" where
  \<open>workday_selectors =
     [''h1[data-automation-id="jobPostingHeader"]'',
      ''h2[class*="JobTitle"]'',
      ''[data-automation-id*="jobTitle"]'']\<close>

definition title_selectors :: "string list" where
  \<open>title_selectors =
     [''h1[data-testid*="job-title"]'', ''h1[class*="job-title"]'',
      ''h1[class*="position-title"]'', ''[data-testid*="job-title"]'',
      ''h1'', ''h2[class*="job"]'', ''[role="heading"][aria-level="1"]'']\<close>

definition extract_job_title :: "container \<Rightarrow> string" where
  "extract_job_title c =
     (case first_title c workday_selectors of
        Some title \<Rightarrow> title
      | None \<Rightarrow>
          (case first_title c title_selectors of
             Some title \<Rightarrow> title
           | None \<Rightarrow> ''Job Title Not Available''))"

text \<open>\<open>_is_apply_page\<close>.\<close>

definition is_apply_page :: "soup \<Rightarrow> bool" where
  "is_apply_page sp =
     (if forms sp > 1 then True
      else any_in [''provide your contact information'', ''upload resume'',
                   ''application form'', ''recaptcha''] (lower (get_text sp)))"

text \<open>\<open>_extract_single_job\<close>: \<open>None\<close> for a job URL seen before, an apply page or an
  invalid title; the metadata record when the page embeds a JobPosting, or the exception
  that building it raises; else the record of the DOM heuristics.\<close>

definition extract_single_job :: "web \<Rightarrow> string \<Rightarrow> soup \<Rightarrow> scraper \<Rightarrow> (exn + job option) \<times> scraper" where
  "extract_single_job W job_url sp st =
     (if job_url \<in> visited_job_urls st then (Inr None, st)
      else
        let st1 = st\<lparr>visited_job_urls := insert job_url (visited_job_urls st)\<rparr> in
        if is_apply_page sp then (Inr None, st1)
        else
          let c = job_container sp in
          case json_ld sp of
            Some json_ld_data \<Rightarrow>
              (case create_job_from_json_ld W json_ld_data job_url of
                 Inl e \<Rightarrow> (Inl e, st1)
               | Inr job_data \<Rightarrow> (Inr (Some job_data), st1))
          | None \<Rightarrow>
              let title = extract_job_title c in
              if is_invalid_title title then (Inr None, st1)
              else
                let description = extract_description c in
                (Inr (Some \<lparr>job_id = None,
                            job_title = JStr title,
                            company = JStr (extract_company c job_url),
                            location = extract_location c,
                            experience = JStr (extract_employment_type c description),
                            job_description = description,
                            responsibilities = extract_responsibilities c,
                            skills = extract_skills W description,
                            source_url = job_url\<rparr>), st1))"

text \<open>\<open>_extract_single_job_from_url\<close>: a light-tier fetch of the job URL; whatever is
  raised, by the fetcher or by the extraction, is swallowed and the result is
  \<open>None\<close>.\<close>

definition extract_single_job_from_url :: "web \<Rightarrow> string \<Rightarrow> scraper \<Rightarrow> job option \<times> scraper" where
  "extract_single_job_from_url W job_url st =
     (let st1 = log (Light Detail job_url) st in
      case arun W (trace st1) job_url of
        Raises \<Rightarrow> (None, st1)
      | Failed \<Rightarrow> (None, st1)
      | Html html \<Rightarrow>
          (case extract_single_job W job_url (parse W html) st1 of
             (Inl e, st2) \<Rightarrow> (None, st2)
           | (Inr job_data, st2) \<Rightarrow> (job_data, st2)))"

text \<open>
  \<open>_extract_from_job_listing\<close>. The state of its loops is the list \<open>jobs\<close>, the local
  set \<open>visited\<close> and the scraper. \<open>scrape\<close> is the common body of both loops: fetch the
  job URL and keep the record if it validates. An exception of the validation or of
  \<open>urljoin\<close> is not caught here: it ends the loop and the function, with the scraper
  as it is then.
\<close>

definition scrape :: "web \<Rightarrow> string \<Rightarrow> job list \<Rightarrow> string set \<Rightarrow> scraper \<Rightarrow> string \<Rightarrow> (exn + job list \<times> string set) \<times> scraper" where
  "scrape W country jobs visited st job_url =
     (case extract_single_job_from_url W job_url st of
        (Some job_data, st1) \<Rightarrow>
          (case validate_job job_data country of
             Inl e \<Rightarrow> (Inl e, st1)
           | Inr ok \<Rightarrow>
               (Inr (if ok then jobs @ [job_data] else jobs, insert job_url visited), st1))
      | (None, st1) \<Rightarrow> (Inr (jobs, insert job_url visited), st1))"

fun scrape_cards :: "web \<Rightarrow> string \<Rightarrow> string \<Rightarrow> job list \<Rightarrow> string set \<Rightarrow> scraper \<Rightarrow> elem list \<Rightarrow> (exn + job list \<times> string set) \<times> scraper" where
  "scrape_cards W site_url country jobs visited st [] = (Inr (jobs, visited), st)"
| "scrape_cards W site_url country jobs visited st (crd # cards) =
     (case extract_job_url_from_card W crd site_url of
        Inl e \<Rightarrow> (Inl e, st)
      | Inr None \<Rightarrow> scrape_cards W site_url country jobs visited st cards
      | Inr (Some job_url) \<Rightarrow>
          if job_url \<noteq> [] \<and> job_url \<notin> visited \<and> \<not> is_apply_url job_url
          then
            (case scrape W country jobs visited st job_url of
               (Inl e, st1) \<Rightarrow> (Inl e, st1)
             | (Inr (jobs1, visited1), st1) \<Rightarrow>
                 scrape_cards W site_url country jobs1 visited1 st1 cards)
          else scrape_cards W site_url country jobs visited st cards)"

fun scrape_links :: "web \<Rightarrow> string \<Rightarrow> job list \<Rightarrow> string set \<Rightarrow> scraper \<Rightarrow> string list \<Rightarrow> (exn + job list \<times> string set) \<times> scraper" where
  "scrape_links W country jobs visited st [] = (Inr (jobs, visited), st)"
| "scrape_links W country jobs visited st (link # links) =
     (if link \<notin> visited \<and> \<not> is_apply_url link
      then
        (case scrape W country jobs visited st link of
           (Inl e, st1) \<Rightarrow> (Inl e, st1)
         | (Inr (jobs1, visited1), st1) \<Rightarrow> scrape_links W country jobs1 visited1 st1 links)
      else scrape_links W country jobs visited st links)"

definition extract_from_job_listing :: "web \<Rightarrow> string \<Rightarrow> soup \<Rightarrow> string \<Rightarrow> scraper \<Rightarrow> (exn + job list) \<times> scraper" where
  "extract_from_job_listing W site_url sp country st =
     (case scrape_cards W site_url country [] {} st (take 15 (find_job_cards sp)) of
        (Inl e, st1) \<Rightarrow> (Inl e, st1)
      | (Inr (jobs, visited), st1) \<Rightarrow>
          if length jobs < 3
          then
            (case find_job_links W sp site_url of
               Inl e \<Rightarrow> (Inl e, st1)
             | Inr links \<Rightarrow>
                 (case scrape_links W country jobs visited st1 (take 10 links) of
                    (Inl e, st2) \<Rightarrow> (Inl e, st2)
                  | (Inr (jobs2, visited2), st2) \<Rightarrow> (Inr jobs2, st2)))
          else (Inr jobs, st1))"

section \<open>The crawl controller\<close>

text \<open>\<open>_detect_and_fill_filters\<close>: the search URL, if the page has a filter form.
  \<open>urlparse(base_url)\<close> is reached only then, and may raise.\<close>

definition detect_and_fill_filters :: "web \<Rightarrow> soup \<Rightarrow> string \<Rightarrow> string \<Rightarrow> exn + string option" where
  "detect_and_fill_filters W sp base_url country =
     (if country = [] then Inr None
      else
        let has_location = list_ex (\<lambda>i. any_in [''location'', ''place'', ''country''] (lower i))
                             (inputs sp);
            has_keyword = list_ex (\<lambda>i. any_in [''keyword'', ''search'', ''q=''] (lower i))
                            (inputs sp)
        in if \<not> (has_location \<or> has_keyword) then Inr None
           else
             case url_query W base_url of
               None \<Rightarrow> Inl ValueError
             | Some query \<Rightarrow>
                 let query_params =
                       (if has_location
                        then [(''location'', country), (''loc'', country), (''country'', country)]
                        else [])
                       @ (if has_keyword then [(''q'', country), (''keywords'', country)] else []);
                     new_query = urlencode W query_params
                 in if query \<noteq> [] then Inr (Some (base_url @ ''&'' @ new_query))
                    else Inr (Some (base_url @ ''?'' @ new_query)))"

text \<open>
  The guards at the head of \<open>_recursive_crawl\<close>, before its \<open>try\<close> block: the depth
  limit, the visited-URL guard, the blocklist, the legacy depth check and the loop-safety
  check. The first component says that the call returns the empty list at once.
\<close>

definition crawl_guard :: "string \<Rightarrow> nat \<Rightarrow> scraper \<Rightarrow> bool \<times> scraper" where
  "crawl_guard url depth st =
     (if depth > 2 then (True, st)
      else if url \<in> visited_urls st then (True, st)
      else
        let st1 = st\<lparr>visited_urls := insert url (visited_urls st)\<rparr> in
        if should_skip_url url then (True, st1)
        else if depth > 3 then (True, st1)
        else if url \<in> seen_urls st1 \<or> url \<in> visited_gateways st1 then (True, st1)
        else (False, st1\<lparr>seen_urls := insert url (seen_urls st1)\<rparr>))"

text \<open>
  The first part of the \<open>try\<close> block of \<open>_recursive_crawl\<close>: the light-tier fetch and
  the escalation to the browser. \<open>Inl\<close> is an exception, \<open>Inr None\<close> an early
  \<open>return []\<close>, \<open>Inr (Some soup)\<close> the page to classify.
\<close>

definition needs_selenium :: "string \<Rightarrow> soup \<Rightarrow> bool" where
  "needs_selenium url sp =
     (let text_content = get_text_strip sp in
      is_spa_url url \<or> word_count text_content < 100
      \<or> contains ''enable javascript'' (lower text_content)
      \<or> contains ''please enable'' (lower text_content))"

definition load_page :: "web \<Rightarrow> string \<Rightarrow> scraper \<Rightarrow> (exn + soup option) \<times> scraper" where
  "load_page W url st =
     (let st1 = log (Light Crawl url) st in
      case arun W (trace st1) url of
        Raises \<Rightarrow> (Inl CrawlerError, st1)
      | Failed \<Rightarrow> (Inr None, st1)
      | Html html \<Rightarrow>
          let sp = parse W html in
          if needs_selenium url sp then
            (case extract_with_selenium W url st1 of (selenium_html, st2) \<Rightarrow>
               if selenium_html \<noteq> [] then (Inr (Some (parse W selenium_html)), st2)
               else if word_count (get_text_strip sp) < 50 then (Inr None, st2)
               else (Inr (Some sp), st2))
          else (Inr (Some sp), st1))"

text \<open>\<open>_recursive_crawl\<close>, with the loop over the category links as
  \<open>crawl_categories\<close>. Whatever is raised in the \<open>try\<close> block, by the fetcher, by
  \<open>urljoin\<close> or by the validation of a record, ends this call with the empty list,
  and the scraper as it is at that moment.\<close>

function recursive_crawl :: "web \<Rightarrow> string \<Rightarrow> string \<Rightarrow> nat \<Rightarrow> scraper \<Rightarrow> job list \<times> scraper"
  and crawl_categories :: "web \<Rightarrow> string list \<Rightarrow> string \<Rightarrow> nat \<Rightarrow> scraper \<Rightarrow> job list \<times> scraper"
where
  "recursive_crawl W url country depth st =
     (let g = crawl_guard url depth (log (Visit url depth) st) in
      if fst g then ([], snd g)
      else
        case load_page W url (snd g) of
          (Inl e, st2) \<Rightarrow> ([], st2)
        | (Inr None, st2) \<Rightarrow> ([], st2)
        | (Inr (Some sp), st2) \<Rightarrow>
            (case classify_page_type W sp url of
               Inl e \<Rightarrow> ([], st2)
             | Inr CAREER_INFO \<Rightarrow> ([], st2)
             | Inr JOB_SEARCH_APP \<Rightarrow>
                 (case extract_from_job_listing W url sp country st2 of
                    (Inl e, st3) \<Rightarrow> ([], st3)
                  | (Inr jobs, st3) \<Rightarrow> (jobs, st3))
             | Inr JOB_DETAIL \<Rightarrow>
                 (case extract_single_job W url sp st2 of
                    (Inl e, st3) \<Rightarrow> ([], st3)
                  | (Inr None, st3) \<Rightarrow> ([], st3)
                  | (Inr (Some job_data), st3) \<Rightarrow>
                      (case validate_job job_data country of
                         Inl e \<Rightarrow> ([], st3)
                       | Inr ok \<Rightarrow> (if ok then [job_data] else [], st3)))
             | Inr JOB_LISTING \<Rightarrow>
                 (case extract_from_job_listing W url sp country st2 of
                    (Inl e, st3) \<Rightarrow> ([], st3)
                  | (Inr extracted_jobs, st3) \<Rightarrow>
                      if length extracted_jobs = 0 then
                        (case find_category_links W sp url of
                           Inl e \<Rightarrow> ([], st3)
                         | Inr category_links \<Rightarrow>
                             if length category_links > 0 then
                               (case crawl_categories W category_links country depth st3 of
                                  (all_jobs, st4) \<Rightarrow>
                                    (deduplicate_jobs (str_of W) all_jobs, st4))
                             else (extracted_jobs, st3))
                      else (extracted_jobs, st3))
             | Inr CAREER_GATEWAY \<Rightarrow>
                 (let st3 = st2\<lparr>visited_gateways := insert url (visited_gateways st2)\<rparr> in
                  case find_category_links W sp url of
                    Inl e \<Rightarrow> ([], st3)
                  | Inr category_links \<Rightarrow>
                      (case crawl_categories W category_links country depth st3 of
                         (all_jobs, st4) \<Rightarrow>
                           (case extract_from_job_listing W url sp country st4 of
                              (Inl e, st5) \<Rightarrow> ([], st5)
                            | (Inr direct_jobs, st5) \<Rightarrow>
                                (deduplicate_jobs (str_of W) (all_jobs @ direct_jobs), st5))))
             | Inr OTHER \<Rightarrow>
                 (case extract_from_job_listing W url sp country st2 of
                    (Inl e, st3) \<Rightarrow> ([], st3)
                  | (Inr jobs, st3) \<Rightarrow>
                      if length jobs = 0 then
                        (case find_category_links W sp url of
                           Inl e \<Rightarrow> ([], st3)
                         | Inr category_links \<Rightarrow>
                             if length category_links > 0 then
                               (case crawl_categories W category_links country depth st3 of
                                  (all_jobs, st4) \<Rightarrow>
                                    (deduplicate_jobs (str_of W) all_jobs, st4))
                             else (jobs, st3))
                      else (jobs, st3))))"
| "crawl_categories W [] country depth st = ([], st)"
| "crawl_categories W (cat # cats) country depth st =
     (if cat \<notin> visited_gateways st then
        (case recursive_crawl W cat country (depth + 1) st of
           (jobs, st1) \<Rightarrow>
             (case crawl_categories W cats country depth st1 of
                (all_jobs, st2) \<Rightarrow> (jobs @ all_jobs, st2)))
      else crawl_categories W cats country depth st)"
  by pat_completeness auto

termination
  apply (relation "inv_image (less_than <*lex*> less_than)
      (\<lambda>x. case x of
         Inl (W, url, country, depth, st) \<Rightarrow> (2 * (4 - depth), 0)
       | Inr (W, cats, country, depth, st) \<Rightarrow> (2 * (4 - (depth + 1)) + 1, length cats))")
  apply (auto simp: crawl_guard_def Let_def split: if_splits)
  done

text \<open>
  The initial load of \<open>extract_jobs_from_site\<close>: the light-tier fetch of the root URL,
  the retry with the browser on low-quality content, and the browser as last resort when
  the fetch did not succeed. \<open>Inl\<close> is an exception, \<open>Inr None\<close> the \<open>return []\<close>
  after both tiers failed.
\<close>

definition scan_page :: "web \<Rightarrow> string \<Rightarrow> scraper \<Rightarrow> (exn + soup option) \<times> scraper" where
  "scan_page W clean_url st =
     (let st1 = log (Light Entry clean_url) st in
      case arun W (trace st1) clean_url of
        Raises \<Rightarrow> (Inl CrawlerError, st1)
      | Failed \<Rightarrow>
          (case extract_with_selenium W clean_url st1 of (selenium_html, st2) \<Rightarrow>
             if selenium_html \<noteq> [] then (Inr (Some (parse W selenium_html)), st2)
             else (Inr None, st2))
      | Html html \<Rightarrow>
          let sp = parse W html; text_content = get_text_strip sp in
          if word_count text_content < 100 \<or> length text_content < 500
             \<or> contains ''enable javascript'' (lower text_content)
             \<or> contains ''please enable'' (lower text_content)
          then
            (case extract_with_selenium W clean_url st1 of (selenium_html, st2) \<Rightarrow>
               if selenium_html \<noteq> [] then (Inr (Some (parse W selenium_html)), st2)
               else (Inr (Some sp), st2))
          else (Inr (Some sp), st1))"

text \<open>The \<open>try\<close> block of \<open>extract_jobs_from_site\<close>; \<open>Inl\<close> is an exception that
  reaches its \<open>except\<close> clause: the crawler cannot be entered, the first fetch raises,
  or \<open>urlparse\<close> does in the filter detection.\<close>

definition crawl_site :: "web \<Rightarrow> string \<Rightarrow> string \<Rightarrow> scraper \<Rightarrow> (exn + job list) \<times> scraper" where
  "crawl_site W site_url country st =
     (if \<not> start W then (Inl CrawlerError, st)
      else
        let clean_url = get_job_detail_url site_url in
        if should_skip_url clean_url then (Inr [], st)
        else
          case scan_page W clean_url st of
            (Inl e, st1) \<Rightarrow> (Inl e, st1)
          | (Inr None, st1) \<Rightarrow> (Inr [], st1)
          | (Inr (Some scan_soup), st1) \<Rightarrow>
              (case detect_and_fill_filters W scan_soup clean_url country of
                 Inl e \<Rightarrow> (Inl e, st1)
               | Inr (Some search_url) \<Rightarrow>
                   (case recursive_crawl W search_url country 0 st1 of (jobs, st2) \<Rightarrow>
                      if length jobs = 0 then
                        (case recursive_crawl W clean_url country 0 st2 of
                           (jobs2, st3) \<Rightarrow> (Inr jobs2, st3))
                      else (Inr jobs, st2))
               | Inr None \<Rightarrow>
                   (case recursive_crawl W clean_url country 0 st1 of
                      (jobs, st2) \<Rightarrow> (Inr jobs, st2))))"

text \<open>
  The emergency path of the \<open>except\<close> clause: one browser fetch of the root URL,
  a minimal record per job card that has a job link, and, when there is none, a record
  per job link (at most ten). A card whose link makes \<open>urljoin\<close> raise is skipped
  (\<open>except: continue\<close>). The search for job links is under no \<open>try\<close>: when
  \<open>urljoin\<close> raises there, the exception leaves \<open>extract_jobs_from_site\<close>.
\<close>

definition fallback_card :: "web \<Rightarrow> string \<Rightarrow> job list \<Rightarrow> elem \<Rightarrow> job list" where
  "fallback_card W clean_url fallback_jobs crd =
     (let title = (case el_heading crd of
                     Some h \<Rightarrow> strip h
                   | None \<Rightarrow> split_first [CHR 0x0A] (strip (el_text crd)))
      in case extract_job_url_from_card W crd clean_url of
           Inl e \<Rightarrow> fallback_jobs
         | Inr None \<Rightarrow> fallback_jobs
         | Inr (Some job_url) \<Rightarrow>
             if job_url = [] then fallback_jobs
             else fallback_jobs @
               [\<lparr>job_id = None,
                 job_title = JStr title,
                 company = JStr ''Unknown - Extracted from Listing'',
                 location = ''See Job Link'',
                 experience = JStr ''See Job Link'',
                 job_description =
                   ''Extracted via Selenium Fallback (Listing Only). Please visit link for details.'',
                 responsibilities = [],
                 skills = [],
                 source_url = job_url\<rparr>])"

definition fallback_link :: "string \<Rightarrow> job" where
  "fallback_link link =
     \<lparr>job_id = None,
      job_title = JStr ''Job Link Found'',
      company = JStr ''Unknown'',
      location = ''Unknown'',
      experience = JStr ''Unknown'',
      job_description = ''Link extracted via Selenium Fallback'',
      responsibilities = [],
      skills = [],
      source_url = link\<rparr>"

definition emergency :: "web \<Rightarrow> string \<Rightarrow> scraper \<Rightarrow> (exn + job list) \<times> scraper" where
  "emergency W site_url st =
     (let clean_url = get_job_detail_url site_url in
      case extract_with_selenium W clean_url st of (selenium_html, st1) \<Rightarrow>
        if selenium_html \<noteq> [] then
          let sp = parse W selenium_html;
              fallback_jobs = foldl (fallback_card W clean_url) [] (find_job_cards sp)
          in if length fallback_jobs = 0
             then
               (case find_job_links W sp clean_url of
                  Inl e \<Rightarrow> (Inl e, st1)
                | Inr links \<Rightarrow> (Inr (map fallback_link (take 10 links)), st1))
             else (Inr fallback_jobs, st1)
        else (Inr [], st1))"

text \<open>
  \<open>extract_jobs_from_site\<close>: the session's sets are reset (not \<open>visited_gateways\<close>),
  the log of the session starts empty, and an exception of the \<open>try\<close> block leads to
  the emergency path, whose result, a list or an exception, is the result of the call.
\<close>

definition new_session :: "scraper \<Rightarrow> scraper" where
  "new_session st0 =
     st0\<lparr>seen_urls := {}, visited_urls := {}, visited_job_urls := {},
         used_selenium_for_url := {}, trace := []\<rparr>"

definition extract_jobs_from_site :: "web \<Rightarrow> string \<Rightarrow> string \<Rightarrow> scraper \<Rightarrow> (exn + job list) \<times> scraper" where
  "extract_jobs_from_site W site_url country st0 =
     (let st = new_session st0
      in case crawl_site W site_url country st of
           (Inr jobs, st1) \<Rightarrow> (Inr jobs, st1)
         | (Inl e, st1) \<Rightarrow> emergency W site_url st1)"

section \<open>Example records\<close>

definition intern_example :: job where
  "intern_example =
     \<lparr>job_id = None, job_title = JStr ''Data Intern'', company = JStr ''ACME'',
      location = ''Remote'', experience = JStr ''Full-time'',
      job_description = replicate 300 (CHR ''x''), responsibilities = [],
      skills = [''Python''], source_url = ''https://x.com/job/1''\<rparr>"

definition form_example :: job where
  "form_example =
     \<lparr>job_id = None, job_title = JStr ''Data Intern'', company = JStr ''ACME'',
      location = ''Remote'', experience = JStr ''Full-time'',
      job_description = ''Please fill in the application form to join us. '' @ replicate 300 (CHR ''x''),
      responsibilities = [],
      skills = [''Python''], source_url = ''https://x.com/job/2''\<rparr>"


text \<open>
  A web in which nothing can be fetched, a page that embeds a JobPosting without a
  title, the metadata of a JobPosting whose hiring organisation is given as a string, a
  page with a heading, and a scraper before its first crawl. \<open>str_example\<close> prints
  \<open>None\<close>, \<open>True\<close> and \<open>False\<close> as Python does; no example formats another value
  that is not a string.
\<close>

definition no_container :: container where
  "no_container =
     \<lparr>select_one_text = (\<lambda>sel. None), extract_location = ''Location not specified'',
      extract_description = ''Job description not available'',
      extract_responsibilities = [], extract_company = (\<lambda>url. []),
      extract_employment_type = (\<lambda>d. ''Full-time'')\<rparr>"

definition blank_page :: soup where
  "blank_page =
     \<lparr>get_text = [], get_text_strip = [], select = (\<lambda>sel. []), anchors = [],
      inputs = [], jobs_ul = False, detail_indicators = False, job_content = 0,
      forms = 0, json_ld = None, job_container = no_container\<rparr>"

definition untitled_posting :: soup where
  "untitled_posting =
     blank_page\<lparr>json_ld := Some [(''@type'', JStr ''JobPosting''),
                                  (''description'', JStr ''Analyse data.'')]\<rparr>"

definition acme_posting :: "(string \<times> json) list" where
  "acme_posting =
     [(''@type'', JStr ''JobPosting''), (''title'', JStr ''Data Intern''),
      (''hiringOrganization'', JStr ''ACME''),
      (''jobLocation'', JObj [(''address'', JObj [(''addressLocality'', JStr ''Berlin''),
                                                    (''addressCountry'', JObj [(''name'', JStr ''Germany'')])])])]"

definition titled_page :: soup where
  "titled_page =
     blank_page\<lparr>job_container :=
       no_container\<lparr>select_one_text := (\<lambda>sel. if sel = ''h1'' then Some '' Data Intern '' else None),
                    extract_company := (\<lambda>url. ''ACME'')\<rparr>\<rparr>"

definition str_example :: "json \<Rightarrow> string" where
  "str_example v =
     (case v of JNull \<Rightarrow> ''None'' | JBool b \<Rightarrow> (if b then ''True'' else ''False'') | _ \<Rightarrow> [])"

definition offline :: web where
  "offline =
     \<lparr>start = True, arun = (\<lambda>tr url. Failed), browser = (\<lambda>tr url. None),
      parse = (\<lambda>html. blank_page), urljoin = (\<lambda>base href. Some href),
      urlencode = (\<lambda>ps. []), url_query = (\<lambda>url. Some []),
      extract_skills = (\<lambda>d. []), str_of = str_example\<rparr>"

definition fresh :: scraper where
  "fresh =
     \<lparr>seen_urls = {}, visited_gateways = {}, visited_urls = {}, visited_job_urls = {},
      used_selenium_for_url = {}, trace = []\<rparr>"

section \<open>What a trace shows\<close>

text \<open>The URLs for which the browser was launched, the URLs \<open>_recursive_crawl\<close>
  fetched at the light tier, all URLs fetched at the light tier, and the depths of the
  calls of \<open>_recursive_crawl\<close>, each in the order of the trace.\<close>

fun heavy_of :: "event \<Rightarrow> string list" where
  "heavy_of (Heavy u) = [u]"
| "heavy_of _ = []"

fun crawl_of :: "event \<Rightarrow> string list" where
  "crawl_of (Light c u) = (if c = Crawl then [u] else [])"
| "crawl_of _ = []"

fun light_of :: "event \<Rightarrow> string list" where
  "light_of (Light c u) = [u]"
| "light_of _ = []"

fun visit_of :: "event \<Rightarrow> nat list" where
  "visit_of (Visit u d) = [d]"
| "visit_of _ = []"

definition heavy_urls :: "event list \<Rightarrow> string list" where
  "heavy_urls tr = concat (map heavy_of tr)"

definition crawl_fetches :: "event list \<Rightarrow> string list" where
  "crawl_fetches tr = concat (map crawl_of tr)"

definition light_fetches :: "event list \<Rightarrow> string list" where
  "light_fetches tr = concat (map light_of tr)"

definition visit_depths :: "event list \<Rightarrow> nat list" where
  "visit_depths tr = concat (map visit_of tr)"

text \<open>The invariant of a session: no URL was given to the browser twice and each such
  URL is recorded in \<open>used_selenium_for_url\<close>; no URL was fetched twice by
  \<open>_recursive_crawl\<close> and each such URL is recorded in \<open>visited_urls\<close>; no call of
  \<open>_recursive_crawl\<close> had a depth above 3.\<close>

definition session_inv :: "scraper \<Rightarrow> bool" where
  "session_inv st =
     (distinct (heavy_urls (trace st))
      \<and> set (heavy_urls (trace st)) \<subseteq> used_selenium_for_url st
      \<and> distinct (crawl_fetches (trace st))
      \<and> set (crawl_fetches (trace st)) \<subseteq> visited_urls st
      \<and> list_all (\<lambda>d. d \<le> 3) (visit_depths (trace st)))"

text \<open>Two states of a session between which no URL was given to the browser, no page
  was fetched by \<open>_recursive_crawl\<close> and no call of \<open>_recursive_crawl\<close> was made.\<close>

definition same_session :: "scraper \<Rightarrow> scraper \<Rightarrow> bool" where
  "same_session st st' =
     (used_selenium_for_url st' = used_selenium_for_url st
      \<and> visited_urls st' = visited_urls st
      \<and> heavy_urls (trace st') = heavy_urls (trace st)
      \<and> crawl_fetches (trace st') = crawl_fetches (trace st)
      \<and> visit_depths (trace st') = visit_depths (trace st))"

section \<open>An example site\<close>

text \<open>
  A site with a career hub at \<open>/hub\<close> whose only category link leads to the hub
  \<open>/hub/a\<close>, which leads to the hub \<open>/hub/b\<close>, which links to \<open>/hub/c\<close>; a job page
  at \<open>/job/1\<close>; and a marketing page at \<open>/life\<close> that links to the job page. Both
  fetchers return the URL itself as the HTML of a page they know, and the parser maps it
  to the page. Every link of the site is an absolute URL, which \<open>urljoin\<close> returns. The
  root hub and the job page have fifty words of text, the other pages next to none.
\<close>

definition filler :: string where
  "filler = concat (replicate 50 ''w '')"

definition hub_page :: "string \<Rightarrow> string \<Rightarrow> soup" where
  "hub_page txt link =
     blank_page\<lparr>get_text := txt, get_text_strip := txt,
       anchors := [\<lparr>a_text = ''Careers'', a_href = link, a_parent_class = ''[]''\<rparr>]\<rparr>"

definition job_page :: soup where
  "job_page =
     blank_page\<lparr>get_text := filler, get_text_strip := filler, detail_indicators := True,
       job_container :=
         no_container\<lparr>select_one_text := (\<lambda>sel. if sel = ''h1'' then Some ''Data Intern'' else None),
           extract_location := ''Remote'',
           extract_description := concat (replicate 20 ''data ''),
           extract_company := (\<lambda>url. ''ACME'')\<rparr>\<rparr>"

definition life_page :: soup where
  "life_page =
     blank_page\<lparr>get_text := ''Life at X'', get_text_strip := ''Life at X'',
       anchors := [\<lparr>a_text = ''Open roles'', a_href = ''https://x.com/job/1'',
                    a_parent_class = ''[]''\<rparr>]\<rparr>"

definition site_parse :: "string \<Rightarrow> soup" where
  "site_parse html =
     (if html = ''https://x.com/hub'' then hub_page filler ''https://x.com/hub/a''
      else if html = ''https://x.com/hub/a'' then hub_page ''Hub'' ''https://x.com/hub/b''
      else if html = ''https://x.com/hub/b'' then hub_page ''Hub'' ''https://x.com/hub/c''
      else if html = ''https://x.com/job/1'' then job_page
      else if html = ''https://x.com/life'' then life_page
      else blank_page)"

definition site_urls :: "string list" where
  "site_urls = [''https://x.com/hub'', ''https://x.com/hub/a'', ''https://x.com/hub/b'',
                ''https://x.com/job/1'', ''https://x.com/life'']"

definition site :: web where
  "site =
     offline\<lparr>arun := (\<lambda>tr url. if url \<in> set site_urls then Html url else Failed),
       browser := (\<lambda>tr url. if url \<in> set site_urls then Some url else None),
       parse := site_parse\<rparr>"





section \<open>Facts about strings\<close>

lemma contains_sublist: "contains s t = sublist s t"
  by (induction t) (auto simp: sublist_Cons_right)




lemma split_first_id: "\<not> contains sep s \<Longrightarrow> split_first sep s = s"
  by (induction s) auto


lemma any_in_set: "any_in ts text = (\<exists>t\<in>set ts. contains t text)"
  by (simp add: any_in_def list_ex_iff)

section \<open>The role matcher\<close>

text \<open>
  Claim C8. In internship mode \<open>matches_target_role\<close> accepts a title exactly when
  the lowercased title contains one of the allow-listed terms (intern, internship,
  co-op, trainee, graduate, student, apprentice, fellowship) and none of the
  seniority-exclusion terms of \<open>forbidden_terms\<close>. It accepts
  "Software Engineering Intern" and rejects "Software Engineer",
  "Senior Software Intern" and "Intern Manager".
\<close>

theorem matches_target_role_internship:
  "matches_target_role title ''internship'' =
     ((\<exists>t \<in> {''intern'', ''internship'', ''co-op'', ''trainee'', ''graduate'',
               ''student'', ''apprentice'', ''fellowship''}. sublist t (lower title))
      \<and> \<not> (\<exists>t \<in> set forbidden_terms. sublist t (lower title)))
   \<and> matches_target_role ''Software Engineering Intern'' ''internship''
   \<and> \<not> matches_target_role ''Software Engineer'' ''internship''
   \<and> \<not> matches_target_role ''Senior Software Intern'' ''internship''
   \<and> \<not> matches_target_role ''Intern Manager'' ''internship''"
proof -
  have empty: "\<not> any_in allowed_terms (lower [])"
    by (simp add: any_in_def allowed_terms_def lower_def)
  have general: "matches_target_role title ''internship'' =
     (any_in allowed_terms (lower title) \<and> \<not> any_in forbidden_terms (lower title))"
    using empty by (cases "title = []") (auto simp: matches_target_role_def Let_def)
  have allowed: "any_in allowed_terms s =
     (\<exists>t \<in> {''intern'', ''internship'', ''co-op'', ''trainee'', ''graduate'',
               ''student'', ''apprentice'', ''fellowship''}. sublist t s)" for s
    unfolding any_in_set contains_sublist allowed_terms_def by simp
  have forbidden: "any_in forbidden_terms s =
     (\<exists>t \<in> set forbidden_terms. sublist t s)" for s
    unfolding any_in_set contains_sublist by simp
  have e1: "matches_target_role ''Software Engineering Intern'' ''internship''"
    by code_simp
  have e2: "\<not> matches_target_role ''Software Engineer'' ''internship''"
    by code_simp
  have e3: "\<not> matches_target_role ''Senior Software Intern'' ''internship''"
    by code_simp
  have e4: "\<not> matches_target_role ''Intern Manager'' ''internship''"
    by code_simp
  show ?thesis
    using general e1 e2 e3 e4 unfolding allowed forbidden by blast
qed

section \<open>The URL guard\<close>




section \<open>The validator\<close>

lemma length_lower [simp]: "length (lower s) = length s"
  by (simp add: lower_def)

text \<open>The \<open>_validate_job\<close> that runs consults no score: it accepts a record exactly
  when \<open>is_valid_job\<close> does, the title is a string that matches the internship role,
  and the country gate holds.\<close>

lemma validate_job_accepts:
  "(validate_job j country = Inr True) =
     (is_valid_job j = Inr True
      \<and> (\<exists>t. job_title j = JStr t \<and> matches_target_role t ''internship'')
      \<and> validate_country j country)"
  by (auto simp: validate_job_def split: sum.splits json.splits if_splits)

text \<open>The score-gated \<open>_validate_job\<close>, which is replaced, accepts a record only if
  its score is at least 3, and the score of a record whose description contains
  "application form" is at most 2.\<close>

lemma validate_job_scored_gate:
  "validate_job_scored j country = Inr True \<Longrightarrow>
     \<exists>s. score_job j = Inr s \<and> 3 \<le> s \<and> (country \<noteq> [] \<longrightarrow> validate_country j country)"
  by (auto simp: validate_job_scored_def split: sum.splits if_splits)

lemma score_job_application_form:
  "contains ''application form'' (lower (job_description j)) \<Longrightarrow> score_job j = Inr s \<Longrightarrow> s \<le> 2"
  by (auto simp: score_job_def Let_def split: json.splits)

text \<open>The two example records, evaluated.\<close>

lemma form_example_score: "score_job form_example = Inr 2"
  by code_simp

lemma form_example_phrase: "contains ''application form'' (lower (job_description form_example))"
  by code_simp

lemma form_example_accepted: "validate_job form_example ''Germany'' = Inr True"
  by code_simp

lemma intern_example_score: "score_job intern_example = Inr 7"
  by code_simp

text \<open>
  Claim C1. The validator that runs does not require a score of at least 3. The
  record with the title "Data Intern", the company "ACME", one skill, the location
  "Remote" and a description of 348 characters that contains "application form" has
  the score 2 + 2 + 1 + 1 + 1 - 5 = 2. The score-gated \<open>_validate_job\<close> (lines 856-868)
  rejects it; the \<open>_validate_job\<close> of lines 1195-1206, which replaces that one in the
  class and is the one every call reaches, accepts it. The claim's own example, title
  "Data Intern", a description of 300 characters, one skill and the location "Remote",
  has the score 7, not 6: its title contains the role keyword "intern".
\<close>

theorem validate_job_ignores_score:
  "score_job form_example = Inr 2
   \<and> contains ''application form'' (lower (job_description form_example))
   \<and> validate_job_scored form_example ''Germany'' = Inr False
   \<and> validate_job form_example ''Germany'' = Inr True
   \<and> score_job intern_example = Inr 7"
  by (simp add: form_example_score form_example_phrase form_example_accepted
      intern_example_score validate_job_scored_def)

section \<open>Deduplication\<close>


lemma dedup_step_cases:
  "dedup_step s u j = u \<or> dedup_step s u j = u @ [(dedup_key s u j, j)]"
  by (simp add: dedup_step_def Let_def)




lemma dedup_subseq_foldl:
  "subseq (map snd (foldl (dedup_step s) u jobs)) (map snd u @ jobs)"
proof (induction jobs arbitrary: u)
  case Nil
  then show ?case by simp
next
  case (Cons j jobs)
  have "subseq (map snd (dedup_step s u j) @ jobs) (map snd u @ j # jobs)"
  proof (cases "dedup_step s u j = u")
    case True
    have "subseq jobs (j # jobs)"
      using subseq_drop_many [of jobs jobs "[j]"] by simp
    then have "subseq (map snd u @ jobs) (map snd u @ j # jobs)"
      by (simp only: subseq_append')
    with True show ?thesis by simp
  next
    case False
    with dedup_step_cases [of s u j] have "dedup_step s u j = u @ [(dedup_key s u j, j)]" by blast
    then show ?thesis by simp
  qed
  with Cons.IH [of "dedup_step s u j"] show ?case
    using subseq_order.trans by fastforce
qed

lemma deduplicate_jobs_subseq: "subseq (deduplicate_jobs s jobs) jobs"
  using dedup_subseq_foldl [of s "[]" jobs] by (simp add: deduplicate_jobs_def)

lemma deduplicate_jobs_subset: "set (deduplicate_jobs s jobs) \<subseteq> set jobs"
  using deduplicate_jobs_subseq [of s jobs] by (auto dest: list_emb_set)












section \<open>A proof rule for the crawl\<close>

declare recursive_crawl.simps [simp del]

lemma crawl_guard_depth: "\<not> fst (crawl_guard url depth st) \<Longrightarrow> depth \<le> 2"
  by (auto simp: crawl_guard_def Let_def split: if_splits)

text \<open>The loop over the category links preserves what every call of
  \<open>_recursive_crawl\<close> one level down preserves.\<close>

lemma crawl_categories_rule:
  fixes I :: "scraper \<Rightarrow> bool" and J :: "job list \<Rightarrow> bool"
  assumes rc: "\<And>url s. I s \<Longrightarrow>
            I (snd (recursive_crawl W url country (depth + 1) s))
            \<and> J (fst (recursive_crawl W url country (depth + 1) s))"
    and nil: "J []"
    and app: "\<And>a b. J a \<Longrightarrow> J b \<Longrightarrow> J (a @ b)"
  shows "I st \<Longrightarrow> I (snd (crawl_categories W cats country depth st))
                \<and> J (fst (crawl_categories W cats country depth st))"
proof (induction cats arbitrary: st)
  case Nil
  with nil show ?case by simp
next
  case (Cons cat cats)
  show ?case
  proof (cases "cat \<in> visited_gateways st")
    case True
    with Cons show ?thesis by simp
  next
    case False
    obtain jobs st1 where r: "recursive_crawl W cat country (depth + 1) st = (jobs, st1)"
      by (cases "recursive_crawl W cat country (depth + 1) st") auto
    from rc [OF Cons.prems, of cat] r have i1: "I st1" and j1: "J jobs"
      by simp_all
    obtain aj st2 where c: "crawl_categories W cats country depth st1 = (aj, st2)"
      by (cases "crawl_categories W cats country depth st1") auto
    from Cons.IH [OF i1] c have i2: "I st2" and j2: "J aj"
      by simp_all
    from app [OF j1 j2] i2 False r c show ?thesis
      by simp
  qed
qed

text \<open>
  A property \<open>I\<close> of the scraper's state that the guards, the page load, the listing
  extraction, the single-job extraction and the gateway mark preserve is preserved by
  \<open>_recursive_crawl\<close>; and a property \<open>J\<close> of lists of records that holds of the
  empty list, of a validated record and of the result of the listing extraction, and
  that concatenation and deduplication preserve, holds of the result of
  \<open>_recursive_crawl\<close>.
\<close>

lemma crawl_rule:
  fixes I :: "scraper \<Rightarrow> bool" and J :: "job list \<Rightarrow> bool"
  assumes guard: "\<And>url depth st. depth \<le> 3 \<Longrightarrow> I st \<Longrightarrow>
            I (snd (crawl_guard url depth (log (Visit url depth) st)))"
    and load: "\<And>url depth st. depth \<le> 3 \<Longrightarrow> I st \<Longrightarrow>
            \<not> fst (crawl_guard url depth (log (Visit url depth) st)) \<Longrightarrow>
            I (snd (load_page W url (snd (crawl_guard url depth (log (Visit url depth) st)))))"
    and listing: "\<And>url sp st. I st \<Longrightarrow>
            I (snd (extract_from_job_listing W url sp country st))
            \<and> (\<forall>jobs. fst (extract_from_job_listing W url sp country st) = Inr jobs \<longrightarrow> J jobs)"
    and single: "\<And>url sp st. I st \<Longrightarrow> I (snd (extract_single_job W url sp st))"
    and gateway: "\<And>url st. I st \<Longrightarrow>
            I (st\<lparr>visited_gateways := insert url (visited_gateways st)\<rparr>)"
    and nil: "J []"
    and one: "\<And>j. validate_job j country = Inr True \<Longrightarrow> J [j]"
    and app: "\<And>a b. J a \<Longrightarrow> J b \<Longrightarrow> J (a @ b)"
    and dedup: "\<And>a. J a \<Longrightarrow> J (deduplicate_jobs (str_of W) a)"
  shows "depth \<le> 3 \<Longrightarrow> I st \<Longrightarrow>
           I (snd (recursive_crawl W url country depth st))
           \<and> J (fst (recursive_crawl W url country depth st))"
    and "depth \<le> 2 \<Longrightarrow> I st \<Longrightarrow>
           I (snd (crawl_categories W cats country depth st))
           \<and> J (fst (crawl_categories W cats country depth st))"
proof -
  have l1: "I (snd (extract_from_job_listing W u sp country s))" if "I s" for u sp s
    using listing [OF that] by simp
  have l2: "J jobs"
    if "I s" "fst (extract_from_job_listing W u sp country s) = Inr jobs" for u sp s jobs
    using listing [OF that(1)] that(2) by blast
  have step: "I (snd (recursive_crawl W url country d st))
              \<and> J (fst (recursive_crawl W url country d st))"
    if d3: "d \<le> 3" and st: "I st"
      and cs: "\<And>cs s. d \<le> 2 \<Longrightarrow> I s \<Longrightarrow>
             I (snd (crawl_categories W cs country d s))
             \<and> J (fst (crawl_categories W cs country d s))"
    for d url st
  proof -
    define g where "g = crawl_guard url d (log (Visit url d) st)"
    have Ig: "I (snd g)"
      using guard [OF d3 st, of url] by (simp add: g_def)
    show ?thesis
    proof (cases "fst g")
      case True
      with Ig nil show ?thesis
        by (subst (1 2) recursive_crawl.simps) (simp add: g_def [symmetric] Let_def)
    next
      case False
      then have d2: "d \<le> 2"
        by (simp add: g_def crawl_guard_depth)
      have c1: "I (snd (crawl_categories W cs country d s))"
        and c2: "J (fst (crawl_categories W cs country d s))" if "I s" for cs s
        using cs [OF d2 that] by simp_all
      obtain r st2 where lp: "load_page W url (snd g) = (r, st2)"
        by (cases "load_page W url (snd g)") auto
      have I2: "I st2"
        using load [OF d3 st, of url] False lp by (simp add: g_def)
      have unfold: "recursive_crawl W url country d st =
        (case r of
           Inl e \<Rightarrow> ([], st2)
         | Inr None \<Rightarrow> ([], st2)
         | Inr (Some sp) \<Rightarrow>
            (case classify_page_type W sp url of
               Inl e \<Rightarrow> ([], st2)
             | Inr CAREER_INFO \<Rightarrow> ([], st2)
             | Inr JOB_SEARCH_APP \<Rightarrow>
                 (case extract_from_job_listing W url sp country st2 of
                    (Inl e, st3) \<Rightarrow> ([], st3)
                  | (Inr jobs, st3) \<Rightarrow> (jobs, st3))
             | Inr JOB_DETAIL \<Rightarrow>
                 (case extract_single_job W url sp st2 of
                    (Inl e, st3) \<Rightarrow> ([], st3)
                  | (Inr None, st3) \<Rightarrow> ([], st3)
                  | (Inr (Some job_data), st3) \<Rightarrow>
                      (case validate_job job_data country of
                         Inl e \<Rightarrow> ([], st3)
                       | Inr ok \<Rightarrow> (if ok then [job_data] else [], st3)))
             | Inr JOB_LISTING \<Rightarrow>
                 (case extract_from_job_listing W url sp country st2 of
                    (Inl e, st3) \<Rightarrow> ([], st3)
                  | (Inr extracted_jobs, st3) \<Rightarrow>
                      if length extracted_jobs = 0 then
                        (case find_category_links W sp url of
                           Inl e \<Rightarrow> ([], st3)
                         | Inr category_links \<Rightarrow>
                             if length category_links > 0 then
                               (case crawl_categories W category_links country d st3 of
                                  (all_jobs, st4) \<Rightarrow>
                                    (deduplicate_jobs (str_of W) all_jobs, st4))
                             else (extracted_jobs, st3))
                      else (extracted_jobs, st3))
             | Inr CAREER_GATEWAY \<Rightarrow>
                 (let st3 = st2\<lparr>visited_gateways := insert url (visited_gateways st2)\<rparr> in
                  case find_category_links W sp url of
                    Inl e \<Rightarrow> ([], st3)
                  | Inr category_links \<Rightarrow>
                      (case crawl_categories W category_links country d st3 of
                         (all_jobs, st4) \<Rightarrow>
                           (case extract_from_job_listing W url sp country st4 of
                              (Inl e, st5) \<Rightarrow> ([], st5)
                            | (Inr direct_jobs, st5) \<Rightarrow>
                                (deduplicate_jobs (str_of W) (all_jobs @ direct_jobs), st5))))
             | Inr OTHER \<Rightarrow>
                 (case extract_from_job_listing W url sp country st2 of
                    (Inl e, st3) \<Rightarrow> ([], st3)
                  | (Inr jobs, st3) \<Rightarrow>
                      if length jobs = 0 then
                        (case find_category_links W sp url of
                           Inl e \<Rightarrow> ([], st3)
                         | Inr category_links \<Rightarrow>
                             if length category_links > 0 then
                               (case crawl_categories W category_links country d st3 of
                                  (all_jobs, st4) \<Rightarrow>
                                    (deduplicate_jobs (str_of W) all_jobs, st4))
                             else (jobs, st3))
                      else (jobs, st3))))"
        using False lp
        by (subst recursive_crawl.simps) (simp add: g_def [symmetric] Let_def)
      have lc: "I (snd res) \<and> J (fst res)"
        if res: "res =
          (case extract_from_job_listing W url sp country st2 of
                    (Inl e, st3) \<Rightarrow> ([], st3)
                  | (Inr jobs, st3) \<Rightarrow>
                      if length jobs = 0 then
                        (case find_category_links W sp url of
                           Inl e \<Rightarrow> ([], st3)
                         | Inr category_links \<Rightarrow>
                             if length category_links > 0 then
                               (case crawl_categories W category_links country d st3 of
                                  (all_jobs, st4) \<Rightarrow>
                                    (deduplicate_jobs (str_of W) all_jobs, st4))
                             else (jobs, st3))
                      else (jobs, st3))" for res sp
      proof -
        obtain x st3 where el: "extract_from_job_listing W url sp country st2 = (x, st3)"
          by (cases "extract_from_job_listing W url sp country st2") auto
        have I3: "I st3"
          using l1 [OF I2, of url sp] el by simp
        have Jx: "J jobs" if "x = Inr jobs" for jobs
          using l2 [OF I2, of url sp jobs] el that by simp
        show ?thesis
          using I3 Jx nil c1 [OF I3] dedup [OF c2 [OF I3]]
          by (auto simp: res el case_prod_beta split: sum.splits)
      qed
      show ?thesis
      proof (cases r)
        case (Inl e)
        with I2 nil show ?thesis by (simp add: unfold)
      next
        case (Inr b)
        show ?thesis
        proof (cases b)
          case None
          with Inr I2 nil show ?thesis by (simp add: unfold)
        next
          case (Some sp)
          show ?thesis
          proof (cases "classify_page_type W sp url")
            case (Inl e)
            with Inr Some I2 nil show ?thesis by (simp add: unfold)
          next
            case pt: (Inr p)
            show ?thesis
            proof (cases p)
              case CAREER_INFO
              with pt Inr Some I2 nil show ?thesis by (simp add: unfold)
            next
              case JOB_SEARCH_APP
              obtain x st3 where el: "extract_from_job_listing W url sp country st2 = (x, st3)"
                by (cases "extract_from_job_listing W url sp country st2") auto
              have I3: "I st3"
                using l1 [OF I2, of url sp] el by simp
              have Jx: "J jobs" if "x = Inr jobs" for jobs
                using l2 [OF I2, of url sp jobs] el that by simp
              from pt Inr Some JOB_SEARCH_APP I3 Jx nil el show ?thesis
                by (auto simp: unfold split: sum.splits)
            next
              case JOB_DETAIL
              obtain x st3 where es: "extract_single_job W url sp st2 = (x, st3)"
                by (cases "extract_single_job W url sp st2") auto
              have I3: "I st3"
                using single [OF I2, of url sp] es by simp
              from pt Inr Some JOB_DETAIL I3 nil one es show ?thesis
                by (auto simp: unfold split: sum.splits option.splits)
            next
              case JOB_LISTING
              with pt Inr Some lc [OF refl, of sp] show ?thesis
                by (simp add: unfold)
            next
              case CAREER_GATEWAY
              define st3 where "st3 = st2\<lparr>visited_gateways := insert url (visited_gateways st2)\<rparr>"
              have I3: "I st3"
                using gateway [OF I2] by (simp add: st3_def)
              show ?thesis
              proof (cases "find_category_links W sp url")
                case (Inl e)
                with pt Inr Some CAREER_GATEWAY I3 nil show ?thesis
                  by (simp add: unfold Let_def st3_def [symmetric])
              next
                case cl: (Inr category_links)
                obtain aj st4 where
                  cc: "crawl_categories W category_links country d st3 = (aj, st4)"
                  by (cases "crawl_categories W category_links country d st3") auto
                have I4: "I st4" and J4: "J aj"
                  using c1 [OF I3, of category_links] c2 [OF I3, of category_links] cc
                  by simp_all
                obtain x st5 where el: "extract_from_job_listing W url sp country st4 = (x, st5)"
                  by (cases "extract_from_job_listing W url sp country st4") auto
                have I5: "I st5"
                  using l1 [OF I4, of url sp] el by simp
                have Jx: "J (deduplicate_jobs (str_of W) (aj @ jobs))" if "x = Inr jobs" for jobs
                  using l2 [OF I4, of url sp jobs] el that J4 app dedup by simp
                from pt Inr Some CAREER_GATEWAY cl cc el I5 Jx nil show ?thesis
                  by (auto simp: unfold Let_def st3_def [symmetric] split: sum.splits)
              qed
            next
              case OTHER
              with pt Inr Some lc [OF refl, of sp] show ?thesis
                by (simp add: unfold)
            qed
          qed
        qed
      qed
    qed
  qed
  have cstep: "I (snd (crawl_categories W cs country d s))
               \<and> J (fst (crawl_categories W cs country d s))"
    if "\<And>url st. I st \<Longrightarrow>
           I (snd (recursive_crawl W url country (d + 1) st))
           \<and> J (fst (recursive_crawl W url country (d + 1) st))"
      and "I s" for d cs s
    using that(1) nil app that(2) by (rule crawl_categories_rule [where I = I and J = J])
  have r3: "I (snd (recursive_crawl W url country 3 st))
            \<and> J (fst (recursive_crawl W url country 3 st))" if "I st" for url st
    using that by (intro step) simp_all
  have c2: "I (snd (crawl_categories W cs country 2 s))
            \<and> J (fst (crawl_categories W cs country 2 s))" if "I s" for cs s
    using r3 that by (intro cstep) simp_all
  have r2: "I (snd (recursive_crawl W url country 2 st))
            \<and> J (fst (recursive_crawl W url country 2 st))" if "I st" for url st
    using that c2 by (intro step) simp_all
  have c1: "I (snd (crawl_categories W cs country 1 s))
            \<and> J (fst (crawl_categories W cs country 1 s))" if "I s" for cs s
    using r2 that by (intro cstep) (simp_all add: numeral_2_eq_2)
  have r1: "I (snd (recursive_crawl W url country 1 st))
            \<and> J (fst (recursive_crawl W url country 1 st))" if "I st" for url st
    using that c1 by (intro step) simp_all
  have c0: "I (snd (crawl_categories W cs country 0 s))
            \<and> J (fst (crawl_categories W cs country 0 s))" if "I s" for cs s
    using r1 that by (intro cstep) simp_all
  have r0: "I (snd (recursive_crawl W url country 0 st))
            \<and> J (fst (recursive_crawl W url country 0 st))" if "I st" for url st
    using that c0 by (intro step) simp_all
  have d4: "d = 0 \<or> d = 1 \<or> d = 2 \<or> d = 3" if "d \<le> 3" for d :: nat
    using that by arith
  show "depth \<le> 3 \<Longrightarrow> I st \<Longrightarrow>
           I (snd (recursive_crawl W url country depth st))
           \<and> J (fst (recursive_crawl W url country depth st))"
    using r0 r1 r2 r3 d4 [of depth] by blast
  have d3: "d = 0 \<or> d = 1 \<or> d = 2" if "d \<le> 2" for d :: nat
    using that by arith
  show "depth \<le> 2 \<Longrightarrow> I st \<Longrightarrow>
           I (snd (crawl_categories W cats country depth st))
           \<and> J (fst (crawl_categories W cats country depth st))"
    using c0 c1 c2 d3 [of depth] by blast
qed

section \<open>The session invariant\<close>

lemma heavy_urls_append [simp]: "heavy_urls (tr @ [e]) = heavy_urls tr @ heavy_of e"
  by (simp add: heavy_urls_def)

lemma crawl_fetches_append [simp]: "crawl_fetches (tr @ [e]) = crawl_fetches tr @ crawl_of e"
  by (simp add: crawl_fetches_def)

lemma light_fetches_append [simp]: "light_fetches (tr @ [e]) = light_fetches tr @ light_of e"
  by (simp add: light_fetches_def)

lemma visit_depths_append [simp]: "visit_depths (tr @ [e]) = visit_depths tr @ visit_of e"
  by (simp add: visit_depths_def)

lemma same_session_refl [simp]: "same_session st st"
  by (simp add: same_session_def)

lemma same_session_trans:
  "same_session st st1 \<Longrightarrow> same_session st1 st2 \<Longrightarrow> same_session st st2"
  by (simp add: same_session_def)

lemma session_inv_same: "session_inv st \<Longrightarrow> same_session st st' \<Longrightarrow> session_inv st'"
  by (simp add: session_inv_def same_session_def)

lemma extract_single_job_same: "same_session st (snd (extract_single_job W job_url sp st))"
  by (simp add: extract_single_job_def same_session_def Let_def
      split: option.splits sum.splits)

lemma extract_single_job_from_url_same:
  "same_session st (snd (extract_single_job_from_url W job_url st))"
proof -
  have a: "same_session st (log (Light Detail job_url) st)"
    by (simp add: same_session_def log_def)
  have b: "same_session st s'"
    if "extract_single_job W job_url sp (log (Light Detail job_url) st) = (x, s')" for sp x s'
    using same_session_trans [OF a extract_single_job_same [of _ W job_url sp]] that
    by simp
  show ?thesis
    using a b
    by (auto simp: extract_single_job_from_url_def Let_def
        split: fetch.splits prod.splits sum.splits)
qed

text \<open>The listing extraction leaves the session as it is, and every record it returns
  has passed \<open>_validate_job\<close>.\<close>

lemma scrape_props:
  assumes "scrape W country jobs visited st job_url = (r, st')"
  shows "same_session st st'"
    and "r = Inr (jobs', v') \<Longrightarrow> \<forall>j\<in>set jobs. validate_job j country = Inr True \<Longrightarrow>
         \<forall>j\<in>set jobs'. validate_job j country = Inr True"
proof -
  obtain x st1 where e: "extract_single_job_from_url W job_url st = (x, st1)"
    by (cases "extract_single_job_from_url W job_url st") auto
  have s: "same_session st st1"
    using extract_single_job_from_url_same [of st W job_url] e by simp
  from assms e s show "same_session st st'"
    by (auto simp: scrape_def split: option.splits sum.splits)
  from assms e show "r = Inr (jobs', v') \<Longrightarrow> \<forall>j\<in>set jobs. validate_job j country = Inr True \<Longrightarrow>
         \<forall>j\<in>set jobs'. validate_job j country = Inr True"
    by (auto simp: scrape_def split: option.splits sum.splits if_splits)
qed

lemma scrape_cards_props:
  "scrape_cards W site_url country jobs visited st cards = (r, st') \<Longrightarrow>
   same_session st st'
   \<and> (\<forall>jobs' v'. r = Inr (jobs', v') \<longrightarrow>
        (\<forall>j\<in>set jobs. validate_job j country = Inr True) \<longrightarrow>
        (\<forall>j\<in>set jobs'. validate_job j country = Inr True))"
proof (induction cards arbitrary: jobs visited st)
  case Nil
  then show ?case by auto
next
  case (Cons crd cards)
  show ?case
  proof (cases "extract_job_url_from_card W crd site_url")
    case (Inl e)
    with Cons.prems show ?thesis by auto
  next
    case (Inr ou)
    show ?thesis
    proof (cases "\<exists>job_url. ou = Some job_url \<and> job_url \<noteq> [] \<and> job_url \<notin> visited
                    \<and> \<not> is_apply_url job_url")
      case False
      with Inr have "scrape_cards W site_url country jobs visited st (crd # cards)
          = scrape_cards W site_url country jobs visited st cards"
        by (auto split: option.splits)
      with Cons.prems Cons.IH [of jobs visited st] show ?thesis by simp
    next
      case True
      then obtain job_url where ju: "ou = Some job_url" "job_url \<noteq> []" "job_url \<notin> visited"
        "\<not> is_apply_url job_url"
        by blast
      obtain r1 st1 where sc: "scrape W country jobs visited st job_url = (r1, st1)"
        by (cases "scrape W country jobs visited st job_url") auto
      note p = scrape_props [OF sc]
      show ?thesis
      proof (cases r1)
        case e: (Inl e)
        with Inr ju sc Cons.prems p(1) show ?thesis by auto
      next
        case q: (Inr q)
        obtain jobs1 visited1 where q1: "q = (jobs1, visited1)"
          by (cases q) auto
        from Inr ju sc q q1 Cons.prems
        have "scrape_cards W site_url country jobs1 visited1 st1 cards = (r, st')"
          by simp
        from Cons.IH [OF this] p(1) p(2) [of jobs1 visited1] q q1 show ?thesis
          using same_session_trans by blast
      qed
    qed
  qed
qed

lemma scrape_links_props:
  "scrape_links W country jobs visited st links = (r, st') \<Longrightarrow>
   same_session st st'
   \<and> (\<forall>jobs' v'. r = Inr (jobs', v') \<longrightarrow>
        (\<forall>j\<in>set jobs. validate_job j country = Inr True) \<longrightarrow>
        (\<forall>j\<in>set jobs'. validate_job j country = Inr True))"
proof (induction links arbitrary: jobs visited st)
  case Nil
  then show ?case by auto
next
  case (Cons link links)
  show ?case
  proof (cases "link \<notin> visited \<and> \<not> is_apply_url link")
    case False
    then have "scrape_links W country jobs visited st (link # links)
        = scrape_links W country jobs visited st links"
      by auto
    with Cons.prems Cons.IH [of jobs visited st] show ?thesis by simp
  next
    case True
    obtain r1 st1 where sc: "scrape W country jobs visited st link = (r1, st1)"
      by (cases "scrape W country jobs visited st link") auto
    note p = scrape_props [OF sc]
    show ?thesis
    proof (cases r1)
      case e: (Inl e)
      with True sc Cons.prems p(1) show ?thesis by auto
    next
      case q: (Inr q)
      obtain jobs1 visited1 where q1: "q = (jobs1, visited1)"
        by (cases q) auto
      from True sc q q1 Cons.prems
      have "scrape_links W country jobs1 visited1 st1 links = (r, st')"
        by simp
      from Cons.IH [OF this] p(1) p(2) [of jobs1 visited1] q q1 show ?thesis
        using same_session_trans by blast
    qed
  qed
qed

lemma extract_from_job_listing_props:
  assumes "extract_from_job_listing W site_url sp country st = (r, st')"
  shows "same_session st st'"
    and "r = Inr jobs \<Longrightarrow> \<forall>j\<in>set jobs. validate_job j country = Inr True"
proof -
  obtain r1 st1 where
    c: "scrape_cards W site_url country [] {} st (take 15 (find_job_cards sp)) = (r1, st1)"
    by (cases "scrape_cards W site_url country [] {} st (take 15 (find_job_cards sp))") auto
  note pc = scrape_cards_props [OF c]
  have "same_session st st'
        \<and> (r = Inr jobs \<longrightarrow> (\<forall>j\<in>set jobs. validate_job j country = Inr True))"
  proof (cases r1)
    case (Inl e)
    with assms c pc show ?thesis
      by (auto simp: extract_from_job_listing_def)
  next
    case q: (Inr q)
    obtain jobs1 visited1 where q1: "q = (jobs1, visited1)"
      by (cases q) auto
    from pc q q1 have v1: "\<forall>j\<in>set jobs1. validate_job j country = Inr True"
      by simp
    show ?thesis
    proof (cases "length jobs1 < 3")
      case False
      with assms c q q1 pc v1 show ?thesis
        by (auto simp: extract_from_job_listing_def)
    next
      case True
      show ?thesis
      proof (cases "find_job_links W sp site_url")
        case (Inl e)
        with assms c q q1 pc True show ?thesis
          by (auto simp: extract_from_job_listing_def)
      next
        case (Inr links)
        obtain r2 st2 where
          l: "scrape_links W country jobs1 visited1 st1 (take 10 links) = (r2, st2)"
          by (cases "scrape_links W country jobs1 visited1 st1 (take 10 links)") auto
        note pl = scrape_links_props [OF l]
        from pc pl have s2: "same_session st st2"
          using same_session_trans by blast
        from assms c q q1 True Inr l s2 pl v1 show ?thesis
          by (auto simp: extract_from_job_listing_def split: sum.splits)
      qed
    qed
  qed
  then show "same_session st st'"
    and "r = Inr jobs \<Longrightarrow> \<forall>j\<in>set jobs. validate_job j country = Inr True"
    by simp_all
qed

lemma extract_from_job_listing_same:
  "same_session st (snd (extract_from_job_listing W site_url sp country st))"
  using extract_from_job_listing_props(1) [of W site_url sp country st]
  by (cases "extract_from_job_listing W site_url sp country st") simp

lemma extract_from_job_listing_valid:
  "fst (extract_from_job_listing W site_url sp country st) = Inr jobs \<Longrightarrow>
   \<forall>j\<in>set jobs. validate_job j country = Inr True"
  using extract_from_job_listing_props(2) [of W site_url sp country st _ _ jobs]
  by (cases "extract_from_job_listing W site_url sp country st") simp

lemma extract_with_selenium_inv:
  "session_inv st \<Longrightarrow> session_inv (snd (extract_with_selenium W url st))"
  by (auto simp: extract_with_selenium_def session_inv_def log_def Let_def
      split: option.splits)

lemma extract_with_selenium_inv2:
  "session_inv st \<Longrightarrow> extract_with_selenium W url st = (html, st') \<Longrightarrow> session_inv st'"
  using extract_with_selenium_inv [of st W url] by simp

lemma crawl_guard_inv:
  assumes "depth \<le> 3" "session_inv st"
  shows "session_inv (snd (crawl_guard url depth (log (Visit url depth) st)))"
  using assms
  by (auto simp: crawl_guard_def session_inv_def log_def Let_def)

lemma crawl_guard_fresh:
  assumes "session_inv st" "\<not> fst (crawl_guard url depth (log (Visit url depth) st))"
  shows "url \<notin> set (crawl_fetches (trace (snd (crawl_guard url depth (log (Visit url depth) st)))))
         \<and> url \<in> visited_urls (snd (crawl_guard url depth (log (Visit url depth) st)))"
  using assms
  by (auto simp: crawl_guard_def session_inv_def log_def Let_def split: if_splits)

lemma load_page_inv:
  assumes "session_inv st" "url \<notin> set (crawl_fetches (trace st))" "url \<in> visited_urls st"
  shows "session_inv (snd (load_page W url st))"
proof -
  have a: "session_inv (log (Light Crawl url) st)"
    using assms by (auto simp: session_inv_def log_def)
  show ?thesis
    using a
    by (auto simp: load_page_def Let_def split: fetch.splits prod.splits
        dest: extract_with_selenium_inv2)
qed

text \<open>A call of \<open>_recursive_crawl\<close> keeps the invariant of the session, and every
  record it returns has passed \<open>_validate_job\<close>.\<close>

lemma recursive_crawl_props:
  "depth \<le> 3 \<Longrightarrow> session_inv st \<Longrightarrow>
   session_inv (snd (recursive_crawl W url country depth st))
   \<and> (\<forall>j\<in>set (fst (recursive_crawl W url country depth st)). validate_job j country = Inr True)"
proof (rule crawl_rule(1) [where I = session_inv
      and J = "\<lambda>jobs. \<forall>j\<in>set jobs. validate_job j country = Inr True"])
  show "session_inv (snd (crawl_guard url depth (log (Visit url depth) st)))"
    if "depth \<le> 3" "session_inv st" for url depth st
    using that by (rule crawl_guard_inv)
  show "session_inv (snd (load_page W url
          (snd (crawl_guard url depth (log (Visit url depth) st)))))"
    if "depth \<le> 3" "session_inv st"
      "\<not> fst (crawl_guard url depth (log (Visit url depth) st))" for url depth st
    using crawl_guard_inv [OF that(1,2)] crawl_guard_fresh [OF that(2,3)]
    by (simp add: load_page_inv)
  show "session_inv (snd (extract_from_job_listing W url sp country st))
        \<and> (\<forall>jobs. fst (extract_from_job_listing W url sp country st) = Inr jobs \<longrightarrow>
             (\<forall>j\<in>set jobs. validate_job j country = Inr True))"
    if "session_inv st" for url sp st
    using session_inv_same [OF that extract_from_job_listing_same]
      extract_from_job_listing_valid
    by blast
  show "session_inv (snd (extract_single_job W url sp st))"
    if "session_inv st" for url sp st
    using that extract_single_job_same by (rule session_inv_same)
  show "session_inv (st\<lparr>visited_gateways := insert url (visited_gateways st)\<rparr>)"
    if "session_inv st" for url st
    using that by (simp add: session_inv_def)
  show "\<forall>j\<in>set []. validate_job j country = Inr True"
    by simp
  show "\<forall>j\<in>set [j]. validate_job j country = Inr True"
    if "validate_job j country = Inr True" for j
    using that by simp
  show "\<forall>j\<in>set (a @ b). validate_job j country = Inr True"
    if "\<forall>j\<in>set a. validate_job j country = Inr True"
      "\<forall>j\<in>set b. validate_job j country = Inr True" for a b
    using that by auto
  show "\<forall>j\<in>set (deduplicate_jobs (str_of W) a). validate_job j country = Inr True"
    if "\<forall>j\<in>set a. validate_job j country = Inr True" for a
    using that deduplicate_jobs_subset [of "str_of W" a] by blast
qed

lemma recursive_crawl_inv:
  "depth \<le> 3 \<Longrightarrow> session_inv st \<Longrightarrow>
   session_inv (snd (recursive_crawl W url country depth st))"
  by (simp add: recursive_crawl_props)

lemma scan_page_inv: "session_inv st \<Longrightarrow> session_inv (snd (scan_page W clean_url st))"
proof -
  assume st: "session_inv st"
  have a: "session_inv (log (Light Entry clean_url) st)"
    using st by (auto simp: session_inv_def log_def)
  show ?thesis
    using a
    by (auto simp: scan_page_def Let_def split: fetch.splits prod.splits
        dest: extract_with_selenium_inv2)
qed

lemma crawl_site_inv:
  assumes "session_inv st"
  shows "session_inv (snd (crawl_site W site_url country st))"
proof -
  have r: "session_inv (snd (recursive_crawl W url country 0 s))" if "session_inv s" for url s
    using that by (simp add: recursive_crawl_inv)
  have sc: "session_inv (snd (scan_page W url st))" for url
    using assms by (rule scan_page_inv)
  show ?thesis
    using assms
    by (simp add: crawl_site_def Let_def case_prod_beta r sc
        split: sum.splits option.splits)
qed

lemma emergency_inv: "session_inv st \<Longrightarrow> session_inv (snd (emergency W site_url st))"
  by (auto simp: emergency_def Let_def split: prod.splits sum.splits
      dest: extract_with_selenium_inv2)

lemma extract_jobs_from_site_inv:
  "session_inv (snd (extract_jobs_from_site W site_url country st0))"
proof -
  define st where "st = new_session st0"
  have a: "session_inv st"
    by (simp add: session_inv_def st_def new_session_def heavy_urls_def crawl_fetches_def
        visit_depths_def)
  have b: "session_inv (snd (crawl_site W site_url country st))"
    using a by (rule crawl_site_inv)
  have c: "session_inv (snd (emergency W site_url s))" if "session_inv s" for s
    using that by (rule emergency_inv)
  show ?thesis
    using b c
    by (simp add: extract_jobs_from_site_def Let_def st_def [symmetric] case_prod_beta
        split: sum.splits)
qed

section \<open>The blocklist\<close>

lemma isspace_lower_char: "isspace (lower_char c) = isspace c"
  by (auto simp: isspace_def lower_char_def Let_def)

lemma lower_dropWhile: "lower (dropWhile isspace s) = dropWhile isspace (lower s)"
  by (induction s) (simp_all add: lower_def isspace_lower_char)

lemma lower_rev: "lower (rev s) = rev (lower s)"
  by (simp add: lower_def rev_map)

lemma lower_strip: "lower (strip s) = strip (lower s)"
  by (simp add: strip_def lower_rev lower_dropWhile)

lemma sublist_dropWhile:
  "sublist t s \<Longrightarrow> t \<noteq> [] \<Longrightarrow> \<not> P (hd t) \<Longrightarrow> sublist t (dropWhile P s)"
proof (induction s)
  case Nil
  then show ?case by simp
next
  case (Cons c cs)
  show ?case
  proof (cases "P c")
    case False
    with Cons.prems show ?thesis by simp
  next
    case True
    with Cons.prems have "\<not> prefix t (c # cs)"
      by (cases t) auto
    with Cons.prems have "sublist t cs"
      by (simp add: sublist_Cons_right)
    with Cons True show ?thesis by simp
  qed
qed

lemma contains_strip:
  assumes "contains t s" "t \<noteq> []" "\<not> isspace (hd t)" "\<not> isspace (last t)"
  shows "contains t (strip s)"
proof -
  from assms have a: "sublist t (dropWhile isspace s)"
    by (simp add: contains_sublist sublist_dropWhile)
  then have "sublist (rev t) (rev (dropWhile isspace s))"
    by simp
  then have "sublist (rev t) (dropWhile isspace (rev (dropWhile isspace s)))"
    using assms by (intro sublist_dropWhile) (simp_all add: hd_rev)
  then have "sublist t (rev (dropWhile isspace (rev (dropWhile isspace s))))"
    by (simp add: sublist_rev_right)
  then show ?thesis
    by (simp add: contains_sublist strip_def)
qed

lemma skipped_terms_solid:
  "list_all (\<lambda>t. t \<noteq> [] \<and> \<not> isspace (hd t) \<and> \<not> isspace (last t)) skipped_terms"
  by code_simp

lemma should_skip_url_term:
  assumes "t \<in> set skipped_terms" "contains t (lower url)"
  shows "should_skip_url url"
proof (cases "sanitize_url url")
  case None
  then show ?thesis by (simp add: should_skip_url_def)
next
  case (Some u)
  then have u: "u = strip url"
    by (simp add: sanitize_url_def Let_def split: if_splits)
  from assms(1) skipped_terms_solid
  have "t \<noteq> [] \<and> \<not> isspace (hd t) \<and> \<not> isspace (last t)"
    by (simp add: list_all_iff)
  with assms(2) have "contains t (strip (lower url))"
    by (simp add: contains_strip)
  with assms(1) have "any_in skipped_terms (lower u)"
    by (auto simp: any_in_set u lower_strip)
  with Some show ?thesis by (simp add: should_skip_url_def)
qed

lemma crawl_guard_trace [simp]: "trace (snd (crawl_guard url depth st)) = trace st"
  by (simp add: crawl_guard_def Let_def)

lemma crawl_guard_stops:
  "fst (crawl_guard url depth st) =
     (2 < depth \<or> url \<in> visited_urls st \<or> should_skip_url url
      \<or> url \<in> seen_urls st \<or> url \<in> visited_gateways st)"
  by (auto simp: crawl_guard_def Let_def)

lemma recursive_crawl_stopped:
  "fst (crawl_guard url depth (log (Visit url depth) st)) \<Longrightarrow>
   recursive_crawl W url country depth st =
     ([], snd (crawl_guard url depth (log (Visit url depth) st)))"
  by (subst recursive_crawl.simps) (simp add: Let_def)

lemma log_fields [simp]:
  "visited_urls (log e st) = visited_urls st"
  "seen_urls (log e st) = seen_urls st"
  "visited_gateways (log e st) = visited_gateways st"
  "used_selenium_for_url (log e st) = used_selenium_for_url st"
  "trace (log e st) = trace st @ [e]"
  by (simp_all add: log_def)

lemma site_job_apply:
  "contains ''benefits'' (lower ''https://x.com/job/1/apply?ref=benefits'')
   \<and> should_skip_url ''https://x.com/job/1/apply?ref=benefits''
   \<and> (case extract_jobs_from_site site ''https://x.com/job/1/apply?ref=benefits''
              ''Germany'' fresh of
         (Inr jobs, st) \<Rightarrow>
           map job_title jobs = [JStr ''Data Intern'']
           \<and> light_fetches (trace st) = [''https://x.com/job/1'', ''https://x.com/job/1'']
       | (Inl e, st) \<Rightarrow> False)"
  by code_simp

text \<open>
  Claim C10, as stated, fails at the top-level entry. The URL
  \<open>https://x.com/job/1/apply?ref=benefits\<close> contains "benefits" and the guard
  reports it as blocked, yet \<open>extract_jobs_from_site\<close> fetches its job detail URL and
  returns a job: the entry applies the guard to the URL cut back by
  \<open>_get_job_detail_url\<close>.
\<close>

theorem blocked_urls_counterexample:
  "\<not> (\<forall>W site_url country st0.
        contains ''benefits'' (lower site_url) \<longrightarrow>
        should_skip_url site_url
        \<and> fst (extract_jobs_from_site W site_url country st0) = Inr []
        \<and> light_fetches (trace (snd (extract_jobs_from_site W site_url country st0))) = [])"
proof
  assume "\<forall>W site_url country st0.
        contains ''benefits'' (lower site_url) \<longrightarrow>
        should_skip_url site_url
        \<and> fst (extract_jobs_from_site W site_url country st0) = Inr []
        \<and> light_fetches (trace (snd (extract_jobs_from_site W site_url country st0))) = []"
  with site_job_apply
  have "fst (extract_jobs_from_site site ''https://x.com/job/1/apply?ref=benefits''
              ''Germany'' fresh) = Inr []"
    by blast
  with site_job_apply show False
    by (auto split: prod.splits sum.splits)
qed

text \<open>
  Claim C10, amended. A URL whose lowercase form contains "benefits", "my-profile",
  "candidateexperience" or "skip-to-main" is blocked by \<open>should_skip_url\<close>. Every
  call of \<open>_recursive_crawl\<close> on a blocked URL returns the empty list and fetches
  nothing, at either tier. The top-level entry applies the guard to the URL cut back by
  \<open>_get_job_detail_url\<close>: when that URL is blocked, \<open>extract_jobs_from_site\<close>
  returns the empty list and nothing has happened in the session.
\<close>

theorem blocked_urls:
  "(t \<in> {''benefits'', ''my-profile'', ''candidateexperience'', ''skip-to-main''}
     \<and> contains t (lower url) \<longrightarrow> should_skip_url url)
   \<and> (should_skip_url url \<longrightarrow>
        fst (recursive_crawl W url country depth st) = []
        \<and> light_fetches (trace (snd (recursive_crawl W url country depth st)))
            = light_fetches (trace st)
        \<and> heavy_urls (trace (snd (recursive_crawl W url country depth st)))
            = heavy_urls (trace st))
   \<and> (should_skip_url (get_job_detail_url site_url) \<longrightarrow>
        extract_jobs_from_site W site_url country st0 = (Inr [], new_session st0)
        \<and> trace (new_session st0) = [])"
proof -
  have a: "should_skip_url url"
    if "t \<in> {''benefits'', ''my-profile'', ''candidateexperience'', ''skip-to-main''}"
      "contains t (lower url)"
  proof -
    from that(1) have "t \<in> set skipped_terms"
      by (auto simp: skipped_terms_def)
    then show ?thesis using that(2) by (rule should_skip_url_term)
  qed
  have b: "fst (recursive_crawl W url country depth st) = []
        \<and> light_fetches (trace (snd (recursive_crawl W url country depth st)))
            = light_fetches (trace st)
        \<and> heavy_urls (trace (snd (recursive_crawl W url country depth st)))
            = heavy_urls (trace st)"
    if "should_skip_url url"
  proof -
    from that have "fst (crawl_guard url depth (log (Visit url depth) st))"
      by (simp add: crawl_guard_stops)
    from recursive_crawl_stopped [OF this, of W country]
    show ?thesis by simp
  qed
  have c: "extract_jobs_from_site W site_url country st0 = (Inr [], new_session st0)
        \<and> trace (new_session st0) = []"
    if "should_skip_url (get_job_detail_url site_url)"
    using that
    by (simp add: extract_jobs_from_site_def crawl_site_def emergency_def
        extract_with_selenium_def Let_def new_session_def)
  from a b c show ?thesis by blast
qed

theorem blocked_urls_witness:
  "should_skip_url ''https://x.com/Benefits/health''
   \<and> fst (recursive_crawl site ''https://x.com/Benefits/health'' ''Germany'' 1 fresh) = []
   \<and> light_fetches (trace (snd (recursive_crawl site ''https://x.com/Benefits/health''
        ''Germany'' 1 fresh))) = light_fetches (trace fresh)
   \<and> extract_jobs_from_site site ''https://x.com/Benefits/health/apply'' ''Germany'' fresh
       = (Inr [], new_session fresh)"
proof -
  have p: "''benefits'' \<in> {''benefits'', ''my-profile'', ''candidateexperience'', ''skip-to-main''}
     \<and> contains ''benefits'' (lower ''https://x.com/Benefits/health'')"
    by code_simp
  have q: "get_job_detail_url ''https://x.com/Benefits/health/apply''
     = ''https://x.com/Benefits/health''"
    by code_simp
  have w1: "should_skip_url ''https://x.com/Benefits/health''"
    using blocked_urls [where t = "''benefits''" and url = "''https://x.com/Benefits/health''"] p
    by blast
  have w2: "fst (recursive_crawl site ''https://x.com/Benefits/health'' ''Germany'' 1 fresh) = []
   \<and> light_fetches (trace (snd (recursive_crawl site ''https://x.com/Benefits/health''
        ''Germany'' 1 fresh))) = light_fetches (trace fresh)"
    using blocked_urls [where url = "''https://x.com/Benefits/health''" and W = site
        and country = "''Germany''" and depth = 1 and st = fresh] w1
    by blast
  have w3: "extract_jobs_from_site site ''https://x.com/Benefits/health/apply'' ''Germany'' fresh
       = (Inr [], new_session fresh)"
    using blocked_urls [where site_url = "''https://x.com/Benefits/health/apply''"
        and W = site and country = "''Germany''" and ?st0.0 = fresh] w1 q
    by simp
  from w1 w2 w3 show ?thesis by blast
qed

section \<open>Depth and fetch bounds of a session\<close>

lemma site_hub_trace:
  "trace (snd (extract_jobs_from_site site ''https://x.com/hub'' ''Germany'' fresh)) =
     [Light Entry ''https://x.com/hub'', Heavy ''https://x.com/hub'',
      Visit ''https://x.com/hub'' 0, Light Crawl ''https://x.com/hub'',
      Visit ''https://x.com/hub/a'' 1, Light Crawl ''https://x.com/hub/a'',
      Heavy ''https://x.com/hub/a'', Visit ''https://x.com/hub/b'' 2,
      Light Crawl ''https://x.com/hub/b'', Heavy ''https://x.com/hub/b'',
      Visit ''https://x.com/hub/c'' 3]"
  by code_simp

text \<open>
  Claim C3, as stated, fails. In the session on the example site the hub at depth 2
  has a category link, and \<open>_recursive_crawl\<close> is called on it with depth 3, which is
  above \<open>MAX_DEPTH = 2\<close>.
\<close>

theorem crawl_depth_counterexample:
  "\<not> list_all (\<lambda>d. d \<le> 2)
       (visit_depths (trace (snd (extract_jobs_from_site site ''https://x.com/hub''
          ''Germany'' fresh))))"
  by (simp add: site_hub_trace visit_depths_def)

text \<open>
  Claim C3, amended. In every session the depth passed to a call of
  \<open>_recursive_crawl\<close> is at most \<open>MAX_DEPTH + 1 = 3\<close>. A call at a depth above 2
  returns the empty list at once: it changes nothing but the log of calls. The guards
  stop a call exactly when the depth is above 2, the URL is in the visited-URL set, the
  URL guard blocks it, or the URL is a seen URL or a visited gateway; a call that the
  guards stop returns the empty list and fetches nothing, at either tier.
\<close>

theorem crawl_depth_bound:
  "list_all (\<lambda>d. d \<le> 3)
     (visit_depths (trace (snd (extract_jobs_from_site W site_url country st0))))
   \<and> (2 < depth \<longrightarrow>
        recursive_crawl W url country depth st = ([], log (Visit url depth) st))
   \<and> fst (crawl_guard url depth st) =
        (2 < depth \<or> url \<in> visited_urls st \<or> should_skip_url url
         \<or> url \<in> seen_urls st \<or> url \<in> visited_gateways st)
   \<and> (fst (crawl_guard url depth (log (Visit url depth) st)) \<longrightarrow>
        fst (recursive_crawl W url country depth st) = []
        \<and> light_fetches (trace (snd (recursive_crawl W url country depth st)))
            = light_fetches (trace st)
        \<and> heavy_urls (trace (snd (recursive_crawl W url country depth st)))
            = heavy_urls (trace st))"
proof -
  have a: "list_all (\<lambda>d. d \<le> 3)
     (visit_depths (trace (snd (extract_jobs_from_site W site_url country st0))))"
    using extract_jobs_from_site_inv [of W site_url country st0]
    by (simp add: session_inv_def)
  have b: "recursive_crawl W url country depth st = ([], log (Visit url depth) st)"
    if "2 < depth"
  proof -
    from that have g: "crawl_guard url depth (log (Visit url depth) st)
        = (True, log (Visit url depth) st)"
      by (simp add: crawl_guard_def)
    then have "fst (crawl_guard url depth (log (Visit url depth) st))" by simp
    from recursive_crawl_stopped [OF this, of W country] g show ?thesis by simp
  qed
  have c: "fst (recursive_crawl W url country depth st) = []
        \<and> light_fetches (trace (snd (recursive_crawl W url country depth st)))
            = light_fetches (trace st)
        \<and> heavy_urls (trace (snd (recursive_crawl W url country depth st)))
            = heavy_urls (trace st)"
    if "fst (crawl_guard url depth (log (Visit url depth) st))"
    using recursive_crawl_stopped [OF that, of W country] by simp
  from a b c crawl_guard_stops [of url depth st] show ?thesis by blast
qed

theorem crawl_depth_bound_witness:
  "recursive_crawl site ''https://x.com/hub/c'' ''Germany'' 3 fresh
     = ([], log (Visit ''https://x.com/hub/c'' 3) fresh)
   \<and> fst (recursive_crawl site ''https://x.com/hub/c'' ''Germany'' 3 fresh) = []
   \<and> light_fetches (trace (snd (recursive_crawl site ''https://x.com/hub/c'' ''Germany'' 3
        fresh))) = light_fetches (trace fresh)"
proof -
  have d: "(2::nat) < 3" by simp
  have g: "fst (crawl_guard ''https://x.com/hub/c'' 3 (log (Visit ''https://x.com/hub/c'' 3) fresh))"
    by (simp add: crawl_guard_def)
  note t = crawl_depth_bound [where W = site and url = "''https://x.com/hub/c''"
      and country = "''Germany''" and depth = 3 and st = fresh]
  have w1: "recursive_crawl site ''https://x.com/hub/c'' ''Germany'' 3 fresh
     = ([], log (Visit ''https://x.com/hub/c'' 3) fresh)"
    using t d by blast
  have w2: "fst (recursive_crawl site ''https://x.com/hub/c'' ''Germany'' 3 fresh) = []
   \<and> light_fetches (trace (snd (recursive_crawl site ''https://x.com/hub/c'' ''Germany'' 3
        fresh))) = light_fetches (trace fresh)"
    using t g by blast
  from w1 w2 show ?thesis by blast
qed

text \<open>
  Claim C4, as stated, fails. In the session on the example site the root URL is given
  to the light-tier fetcher twice: once by the initial load of \<open>extract_jobs_from_site\<close>
  and once by \<open>_recursive_crawl\<close>, whose visited-URL set the initial load does not fill.
\<close>

theorem fetch_once_counterexample:
  "\<not> distinct (light_fetches (trace (snd (extract_jobs_from_site site ''https://x.com/hub''
       ''Germany'' fresh))))"
  by (simp add: site_hub_trace light_fetches_def)

text \<open>
  Claim C4, amended. Within one session the browser is launched at most once per URL,
  and \<open>_recursive_crawl\<close> gives no URL to the light-tier fetcher more than once.
\<close>

theorem fetch_once:
  "distinct (heavy_urls (trace (snd (extract_jobs_from_site W site_url country st0))))
   \<and> distinct (crawl_fetches (trace (snd (extract_jobs_from_site W site_url country st0))))"
  using extract_jobs_from_site_inv [of W site_url country st0]
  by (simp add: session_inv_def)

section \<open>Marketing pages\<close>

lemma extract_with_selenium_trace:
  "light_fetches (trace (snd (extract_with_selenium W url st))) = light_fetches (trace st)
   \<and> visit_depths (trace (snd (extract_with_selenium W url st))) = visit_depths (trace st)"
  by (simp add: extract_with_selenium_def Let_def split: option.splits)

lemma load_page_trace:
  "light_fetches (trace (snd (load_page W url st))) = light_fetches (trace st) @ [url]
   \<and> visit_depths (trace (snd (load_page W url st))) = visit_depths (trace st)"
  using extract_with_selenium_trace [of W url "log (Light Crawl url) st"]
  by (simp add: load_page_def Let_def case_prod_beta split: fetch.splits)

lemma classify_career_info:
  "any_in info_keywords (lower (get_text sp)) \<Longrightarrow> find_job_cards sp = [] \<Longrightarrow>
   classify_page_type W sp url = Inr CAREER_INFO"
  by (simp add: classify_page_type_def Let_def)

text \<open>
  Claim C7. A page whose text contains one of the marker phrases of \<open>info_keywords\<close>
  and on which no job card is found is classified \<open>CAREER_INFO\<close>; this is the first
  rule. When \<open>_recursive_crawl\<close> has loaded such a page it returns the empty list and
  the state it had right after the load: the page itself was fetched, and no further
  call of \<open>_recursive_crawl\<close> and no further fetch was made.
\<close>

theorem career_info_stop:
  "(any_in info_keywords (lower (get_text sp)) \<and> find_job_cards sp = [] \<longrightarrow>
      classify_page_type W sp url = Inr CAREER_INFO)
   \<and> (\<not> fst (crawl_guard url depth (log (Visit url depth) st))
       \<and> load_page W url (snd (crawl_guard url depth (log (Visit url depth) st)))
           = (Inr (Some sp), st2)
       \<and> any_in info_keywords (lower (get_text sp)) \<and> find_job_cards sp = [] \<longrightarrow>
      recursive_crawl W url country depth st = ([], st2)
      \<and> light_fetches (trace st2) = light_fetches (trace st) @ [url]
      \<and> visit_depths (trace st2) = visit_depths (trace st) @ [depth])"
proof -
  have b: "recursive_crawl W url country depth st = ([], st2)
      \<and> light_fetches (trace st2) = light_fetches (trace st) @ [url]
      \<and> visit_depths (trace st2) = visit_depths (trace st) @ [depth]"
    if g: "\<not> fst (crawl_guard url depth (log (Visit url depth) st))"
      and l: "load_page W url (snd (crawl_guard url depth (log (Visit url depth) st)))
           = (Inr (Some sp), st2)"
      and m: "any_in info_keywords (lower (get_text sp))" "find_job_cards sp = []"
  proof -
    have c: "classify_page_type W sp url = Inr CAREER_INFO"
      using m by (rule classify_career_info)
    have r: "recursive_crawl W url country depth st = ([], st2)"
      using g l c by (subst recursive_crawl.simps) (simp add: Let_def)
    from load_page_trace [of W url "snd (crawl_guard url depth (log (Visit url depth) st))"] l
    have "light_fetches (trace st2) = light_fetches (trace st) @ [url]
      \<and> visit_depths (trace st2) = visit_depths (trace st) @ [depth]"
      by simp
    with r show ?thesis by simp
  qed
  from b classify_career_info [of sp W url] show ?thesis by blast
qed

theorem career_info_stop_witness:
  "fst (recursive_crawl site ''https://x.com/life'' ''Germany'' 0 fresh) = []
   \<and> light_fetches (trace (snd (recursive_crawl site ''https://x.com/life'' ''Germany'' 0
        fresh))) = [''https://x.com/life'']
   \<and> visit_depths (trace (snd (recursive_crawl site ''https://x.com/life'' ''Germany'' 0
        fresh))) = [0]"
proof -
  define g where "g = crawl_guard ''https://x.com/life'' 0 (log (Visit ''https://x.com/life'' 0) fresh)"
  have e: "\<not> fst (crawl_guard ''https://x.com/life'' 0 (log (Visit ''https://x.com/life'' 0) fresh))
      \<and> (case fst (load_page site ''https://x.com/life''
            (snd (crawl_guard ''https://x.com/life'' 0 (log (Visit ''https://x.com/life'' 0) fresh)))) of
           Inr (Some sp) \<Rightarrow>
             any_in info_keywords (lower (get_text sp)) \<and> length (find_job_cards sp) = 0
         | _ \<Rightarrow> False)"
    by code_simp
  then obtain sp st2 where
    l: "load_page site ''https://x.com/life'' (snd g) = (Inr (Some sp), st2)"
    and m: "any_in info_keywords (lower (get_text sp))" "find_job_cards sp = []"
    by (cases "load_page site ''https://x.com/life'' (snd g)")
      (auto simp: g_def split: sum.splits option.splits)
  from e have ng: "\<not> fst g" by (simp add: g_def)
  have f: "trace fresh = []" by (simp add: fresh_def)
  from career_info_stop [where W = site and url = "''https://x.com/life''" and depth = 0
      and st = fresh and sp = sp and ?st2.0 = st2 and country = "''Germany''"]
    ng l m
  have "recursive_crawl site ''https://x.com/life'' ''Germany'' 0 fresh = ([], st2)
      \<and> light_fetches (trace st2) = light_fetches (trace fresh) @ [''https://x.com/life'']
      \<and> visit_depths (trace st2) = visit_depths (trace fresh) @ [0]"
    unfolding g_def by blast
  then show ?thesis
    by (simp add: f light_fetches_def visit_depths_def)
qed

section \<open>The records of the extractor and of the crawl\<close>

lemma is_invalid_title_length: "\<not> is_invalid_title t \<Longrightarrow> 3 \<le> length t"
  by (auto simp: is_invalid_title_def split: if_splits)

text \<open>Building the location raises nothing but \<open>TypeError\<close>.\<close>

lemma join_parts_error: "join_parts parts = Inl e \<Longrightarrow> e = TypeError"
  by (auto simp: join_parts_def split: option.splits)

lemma ld_location_error: "ld_location d = Inl e \<Longrightarrow> e = TypeError"
  by (auto simp: ld_location_def ld_address_def address_location_def
      dest: join_parts_error split: option.splits json.splits)

lemma create_job_error: "create_job_from_json_ld W d job_url = Inl e \<Longrightarrow> e = TypeError"
  by (auto simp: create_job_from_json_ld_def Let_def
      dest: ld_location_error split: sum.splits json.splits option.splits)

text \<open>A record that passes \<open>_validate_job\<close> has a title and a company that are
  non-empty strings and a description of at least 50 characters.\<close>

lemma validate_job_fields:
  "validate_job j country = Inr True \<Longrightarrow>
     \<exists>t c. job_title j = JStr t \<and> t \<noteq> [] \<and> company j = JStr c \<and> c \<noteq> []
           \<and> 50 \<le> length (job_description j)"
  by (auto simp: validate_job_def is_valid_job_def Let_def
      split: sum.splits json.splits if_splits)

text \<open>Every record that a call of \<open>_recursive_crawl\<close> returns has passed
  \<open>_validate_job\<close>.\<close>

lemma recursive_crawl_valid:
  "\<forall>j\<in>set (fst (recursive_crawl W url country depth st)). validate_job j country = Inr True"
proof (cases "depth \<le> 3")
  case False
  then have "fst (crawl_guard url depth (log (Visit url depth) st))"
    by (simp add: crawl_guard_stops)
  from recursive_crawl_stopped [OF this, of W country] show ?thesis by simp
next
  case True
  have "True \<and> (\<forall>j\<in>set (fst (recursive_crawl W url country depth st)).
                  validate_job j country = Inr True)"
  proof (rule crawl_rule(1) [where I = "\<lambda>s. True"
        and J = "\<lambda>jobs. \<forall>j\<in>set jobs. validate_job j country = Inr True"])
    show "True \<and> (\<forall>jobs. fst (extract_from_job_listing W url sp country st) = Inr jobs \<longrightarrow>
             (\<forall>j\<in>set jobs. validate_job j country = Inr True))" for url sp st
      using extract_from_job_listing_valid by blast
    show "\<forall>j\<in>set (a @ b). validate_job j country = Inr True"
      if "\<forall>j\<in>set a. validate_job j country = Inr True"
        "\<forall>j\<in>set b. validate_job j country = Inr True" for a b
      using that by auto
    show "\<forall>j\<in>set (deduplicate_jobs (str_of W) a). validate_job j country = Inr True"
      if "\<forall>j\<in>set a. validate_job j country = Inr True" for a
      using that deduplicate_jobs_subset [of "str_of W" a] by blast
  qed (simp_all add: True)
  then show ?thesis by simp
qed

text \<open>
  Claim C5, as stated, fails. For a page that embeds a JobPosting without a
  \<open>title\<close> key the extractor returns a record, and its title is the empty string.
\<close>

theorem extractor_counterexample:
  "map_sum id (map_option job_title)
     (fst (extract_single_job offline ''https://x.com/job/1'' untitled_posting fresh))
   = Inr (Some (JStr []))"
  by code_simp

text \<open>
  Claim C5, amended. A record the extractor builds from the DOM heuristics has a
  title that is a string of at least 3 characters and not an invalid title; its company
  and its description are what \<open>_extract_company\<close> and \<open>_extract_description\<close>
  return. When the page embeds JobPosting metadata the extractor returns what
  \<open>_create_job_from_json_ld\<close> does, and that raises \<open>TypeError\<close> and builds no record
  when the metadata has a description that is not a string. In a record it builds, the
  title is the metadata's \<open>title\<close> as it is, and the empty string when there is none;
  the company is the \<open>name\<close> of \<open>hiringOrganization\<close> as it is when that is a
  dictionary with a name, and the placeholder "Company not specified" in every other
  case; the description is the metadata's \<open>description\<close>, a string, and the
  placeholder "Job description not available" when there is none. Every record that
  passes \<open>_validate_job\<close> has a title and a company that are non-empty strings and a
  description of at least 50 characters, and every record that a call of
  \<open>_recursive_crawl\<close> returns has passed \<open>_validate_job\<close>.
\<close>

theorem extractor_fields:
  "(extract_single_job W job_url sp st = (Inr (Some j), st') \<and> json_ld sp = None \<longrightarrow>
      (\<exists>t. job_title j = JStr t \<and> \<not> is_invalid_title t \<and> 3 \<le> length t)
      \<and> company j = JStr (extract_company (job_container sp) job_url)
      \<and> job_description j = extract_description (job_container sp))
   \<and> (json_ld sp = Some d \<and> job_url \<notin> visited_job_urls st \<and> \<not> is_apply_page sp \<longrightarrow>
      fst (extract_single_job W job_url sp st)
        = map_sum id Some (create_job_from_json_ld W d job_url))
   \<and> ((\<exists>v. map_of d ''description'' = Some v \<and> (\<forall>s. v \<noteq> JStr s)) \<longrightarrow>
      create_job_from_json_ld W d job_url = Inl TypeError)
   \<and> (create_job_from_json_ld W d job_url = Inr r \<longrightarrow>
      (map_of d ''title'' = None \<longrightarrow> job_title r = JStr [])
      \<and> (\<forall>v. map_of d ''title'' = Some v \<longrightarrow> job_title r = v)
      \<and> (\<forall>org v. map_of d ''hiringOrganization'' = Some (JObj org)
                  \<and> map_of org ''name'' = Some v \<longrightarrow> company r = v)
      \<and> ((\<forall>org. map_of d ''hiringOrganization'' = Some (JObj org) \<longrightarrow>
             map_of org ''name'' = None) \<longrightarrow>
          company r = JStr ''Company not specified'')
      \<and> (map_of d ''description'' = None \<longrightarrow>
          job_description r = ''Job description not available'')
      \<and> (\<forall>v. map_of d ''description'' = Some v \<longrightarrow> v = JStr (job_description r)))
   \<and> (validate_job j country = Inr True \<longrightarrow>
      (\<exists>t c. job_title j = JStr t \<and> t \<noteq> [] \<and> company j = JStr c \<and> c \<noteq> []
             \<and> 50 \<le> length (job_description j)))
   \<and> (\<forall>x\<in>set (fst (recursive_crawl W url country depth st)).
        validate_job x country = Inr True)"
proof -
  have a: "(\<exists>t. job_title j = JStr t \<and> \<not> is_invalid_title t \<and> 3 \<le> length t)
      \<and> company j = JStr (extract_company (job_container sp) job_url)
      \<and> job_description j = extract_description (job_container sp)"
    if "extract_single_job W job_url sp st = (Inr (Some j), st')" "json_ld sp = None"
    using that
    by (auto simp: extract_single_job_def Let_def is_invalid_title_length split: if_splits)
  have b: "fst (extract_single_job W job_url sp st)
        = map_sum id Some (create_job_from_json_ld W d job_url)"
    if "json_ld sp = Some d" "job_url \<notin> visited_job_urls st" "\<not> is_apply_page sp"
    using that by (simp add: extract_single_job_def Let_def split: sum.splits)
  have c: "create_job_from_json_ld W d job_url = Inl TypeError"
    if "\<exists>v. map_of d ''description'' = Some v \<and> (\<forall>s. v \<noteq> JStr s)"
  proof -
    from that obtain v where v: "map_of d ''description'' = Some v" "\<forall>s. v \<noteq> JStr s"
      by blast
    show ?thesis
    proof (cases "ld_location d")
      case (Inl e)
      with ld_location_error [of d e] show ?thesis
        by (simp add: create_job_from_json_ld_def Let_def)
    next
      case (Inr loc)
      with v show ?thesis
        by (cases v) (simp_all add: create_job_from_json_ld_def Let_def)
    qed
  qed
  have d1: "map_of d ''title'' = None \<longrightarrow> job_title r = JStr []"
    and d2: "\<forall>v. map_of d ''title'' = Some v \<longrightarrow> job_title r = v"
    and d3: "\<forall>org v. map_of d ''hiringOrganization'' = Some (JObj org)
                  \<and> map_of org ''name'' = Some v \<longrightarrow> company r = v"
    and d4: "(\<forall>org. map_of d ''hiringOrganization'' = Some (JObj org) \<longrightarrow>
             map_of org ''name'' = None) \<longrightarrow>
          company r = JStr ''Company not specified''"
    and d5: "map_of d ''description'' = None \<longrightarrow>
          job_description r = ''Job description not available''"
    and d6: "\<forall>v. map_of d ''description'' = Some v \<longrightarrow> v = JStr (job_description r)"
    if h: "create_job_from_json_ld W d job_url = Inr r"
  proof -
    from h show "map_of d ''title'' = None \<longrightarrow> job_title r = JStr []"
      by (auto simp: create_job_from_json_ld_def Let_def
          split: sum.splits json.splits option.splits)
    from h show "\<forall>v. map_of d ''title'' = Some v \<longrightarrow> job_title r = v"
      by (auto simp: create_job_from_json_ld_def Let_def
          split: sum.splits json.splits option.splits)
    from h show "\<forall>org v. map_of d ''hiringOrganization'' = Some (JObj org)
                  \<and> map_of org ''name'' = Some v \<longrightarrow> company r = v"
      by (auto simp: create_job_from_json_ld_def Let_def ld_company_def
          split: sum.splits json.splits option.splits)
    from h have co: "company r = ld_company d"
      by (auto simp: create_job_from_json_ld_def Let_def
          split: sum.splits json.splits option.splits)
    show "(\<forall>org. map_of d ''hiringOrganization'' = Some (JObj org) \<longrightarrow>
             map_of org ''name'' = None) \<longrightarrow>
          company r = JStr ''Company not specified''"
      unfolding co by (auto simp: ld_company_def split: json.splits option.splits)
    from h show "map_of d ''description'' = None \<longrightarrow>
          job_description r = ''Job description not available''"
      by (auto simp: create_job_from_json_ld_def Let_def
          split: sum.splits json.splits option.splits)
    from h show "\<forall>v. map_of d ''description'' = Some v \<longrightarrow> v = JStr (job_description r)"
      by (auto simp: create_job_from_json_ld_def Let_def
          split: sum.splits json.splits option.splits)
  qed
  have e: "validate_job j country = Inr True \<Longrightarrow>
      (\<exists>t c. job_title j = JStr t \<and> t \<noteq> [] \<and> company j = JStr c \<and> c \<noteq> []
             \<and> 50 \<le> length (job_description j))"
    by (rule validate_job_fields)
  note f = recursive_crawl_valid [of W url country depth st]
  from a b c d1 d2 d3 d4 d5 d6 e f show ?thesis by blast
qed

theorem extractor_fields_witness:
  "(\<exists>j t. fst (extract_single_job offline ''https://x.com/job/1'' titled_page fresh)
             = Inr (Some j)
          \<and> job_title j = JStr t \<and> 3 \<le> length t \<and> company j = JStr ''ACME'')
   \<and> fst (extract_single_job offline ''https://x.com/job/1'' untitled_posting fresh)
       = map_sum id Some (create_job_from_json_ld offline
           [(''@type'', JStr ''JobPosting''), (''description'', JStr ''Analyse data.'')]
           ''https://x.com/job/1'')
   \<and> create_job_from_json_ld offline
         [(''@type'', JStr ''JobPosting''), (''title'', JStr ''Data Intern''),
          (''description'', JNull)] ''https://x.com/job/1'' = Inl TypeError
   \<and> (\<exists>r. create_job_from_json_ld offline acme_posting ''https://x.com/job/1'' = Inr r
          \<and> job_title r = JStr ''Data Intern''
          \<and> company r = JStr ''Company not specified''
          \<and> job_description r = ''Job description not available''
          \<and> location r = ''Berlin, Germany'')
   \<and> (\<exists>t c. job_title intern_example = JStr t \<and> t \<noteq> [] \<and> company intern_example = JStr c
          \<and> c \<noteq> [] \<and> 50 \<le> length (job_description intern_example))
   \<and> (\<exists>x. fst (recursive_crawl site ''https://x.com/job/1'' ''Germany'' 0 fresh) = [x]
          \<and> validate_job x ''Germany'' = Inr True)"
proof -
  have "case fst (extract_single_job offline ''https://x.com/job/1'' titled_page fresh) of
          Inr (Some j) \<Rightarrow> True | _ \<Rightarrow> False"
    by code_simp
  then obtain j st' where
    h: "extract_single_job offline ''https://x.com/job/1'' titled_page fresh = (Inr (Some j), st')"
    by (cases "extract_single_job offline ''https://x.com/job/1'' titled_page fresh")
      (auto split: sum.splits option.splits)
  have n: "json_ld titled_page = None"
    by code_simp
  have co: "extract_company (job_container titled_page) ''https://x.com/job/1'' = ''ACME''"
    by code_simp
  have "(\<exists>t. job_title j = JStr t \<and> \<not> is_invalid_title t \<and> 3 \<le> length t)
      \<and> company j = JStr (extract_company (job_container titled_page) ''https://x.com/job/1'')"
    using extractor_fields [of offline "''https://x.com/job/1''" titled_page fresh j st'] h n
    by blast
  with h co have w1: "\<exists>j t. fst (extract_single_job offline ''https://x.com/job/1'' titled_page fresh)
             = Inr (Some j)
          \<and> job_title j = JStr t \<and> 3 \<le> length t \<and> company j = JStr ''ACME''"
    by auto
  have u: "json_ld untitled_posting = Some [(''@type'', JStr ''JobPosting''),
             (''description'', JStr ''Analyse data.'')]
           \<and> ''https://x.com/job/1'' \<notin> visited_job_urls fresh
           \<and> \<not> is_apply_page untitled_posting"
    by code_simp
  have w2: "fst (extract_single_job offline ''https://x.com/job/1'' untitled_posting fresh)
       = map_sum id Some (create_job_from_json_ld offline
           [(''@type'', JStr ''JobPosting''), (''description'', JStr ''Analyse data.'')]
           ''https://x.com/job/1'')"
    using extractor_fields [where W = offline and job_url = "''https://x.com/job/1''"
        and sp = untitled_posting and st = fresh
        and d = "[(''@type'', JStr ''JobPosting''), (''description'', JStr ''Analyse data.'')]"] u
    by blast
  have nd: "\<exists>v. map_of [(''@type'', JStr ''JobPosting''), (''title'', JStr ''Data Intern''),
          (''description'', JNull)] ''description'' = Some v \<and> (\<forall>s. v \<noteq> JStr s)"
    by simp
  have w3: "create_job_from_json_ld offline
         [(''@type'', JStr ''JobPosting''), (''title'', JStr ''Data Intern''),
          (''description'', JNull)] ''https://x.com/job/1'' = Inl TypeError"
    using extractor_fields [where W = offline and job_url = "''https://x.com/job/1''"
        and d = "[(''@type'', JStr ''JobPosting''), (''title'', JStr ''Data Intern''),
          (''description'', JNull)]"] nd
    by blast
  have "case create_job_from_json_ld offline acme_posting ''https://x.com/job/1'' of
          Inr r \<Rightarrow> location r = ''Berlin, Germany'' | Inl e \<Rightarrow> False"
    by code_simp
  then obtain r where
    r: "create_job_from_json_ld offline acme_posting ''https://x.com/job/1'' = Inr r"
      "location r = ''Berlin, Germany''"
    by (auto split: sum.splits)
  have m: "map_of acme_posting ''title'' = Some (JStr ''Data Intern'')"
    "map_of acme_posting ''description'' = None"
    "\<forall>org. map_of acme_posting ''hiringOrganization'' = Some (JObj org) \<longrightarrow>
             map_of org ''name'' = None"
    by (simp_all add: acme_posting_def)
  have "job_title r = JStr ''Data Intern''
          \<and> company r = JStr ''Company not specified''
          \<and> job_description r = ''Job description not available''"
    using extractor_fields [where W = offline and job_url = "''https://x.com/job/1''"
        and d = acme_posting and r = r] r(1) m
    by blast
  with r have w4: "\<exists>r. create_job_from_json_ld offline acme_posting ''https://x.com/job/1'' = Inr r
          \<and> job_title r = JStr ''Data Intern''
          \<and> company r = JStr ''Company not specified''
          \<and> job_description r = ''Job description not available''
          \<and> location r = ''Berlin, Germany''"
    by blast
  have v: "validate_job intern_example ''Germany'' = Inr True"
    by code_simp
  have w5: "\<exists>t c. job_title intern_example = JStr t \<and> t \<noteq> [] \<and> company intern_example = JStr c
          \<and> c \<noteq> [] \<and> 50 \<le> length (job_description intern_example)"
    using extractor_fields [where j = intern_example and country = "''Germany''"] v
    by blast
  have "case fst (recursive_crawl site ''https://x.com/job/1'' ''Germany'' 0 fresh) of
          [x] \<Rightarrow> True | _ \<Rightarrow> False"
    by code_simp
  then obtain x where
    x: "fst (recursive_crawl site ''https://x.com/job/1'' ''Germany'' 0 fresh) = [x]"
    by (auto split: list.splits)
  have "validate_job x ''Germany'' = Inr True"
    using extractor_fields [where W = site and url = "''https://x.com/job/1''"
        and country = "''Germany''" and depth = 0 and st = fresh] x
    by simp
  with x have w6: "\<exists>x. fst (recursive_crawl site ''https://x.com/job/1'' ''Germany'' 0 fresh) = [x]
          \<and> validate_job x ''Germany'' = Inr True"
    by blast
  from w1 w2 w3 w4 w5 w6 show ?thesis by blast
qed

section \<open>Exceptions\<close>






end
